theory Spec2Isabelle
  imports Complex_Main
begin

section \<open>Python values\<close>

text \<open>
  The job summary of \<^verbatim>\<open>src/summary.py\<close> and the memory helpers of \<^verbatim>\<open>memory.py\<close>
  are embedded as HOL functions. Python numbers (unbounded integers, and the floats that
  true division produces) are modelled as exact rationals: the rounding of IEEE doubles is
  idealised away. Strings are lists of characters (ASCII text, one character per code
  point), \<^verbatim>\<open>None\<close> is \<open>None\<close> of an option type, a dictionary is an association list
  in iteration order, and every exception the code can raise is a value on the left of a sum.
\<close>

type_synonym number = rat

datatype py_error =
    KeyError string
  | ValueError
  | IndexError
  | ZeroDivisionError
  | ExternalError string

text \<open>Sequencing of two steps where the first may raise.\<close>

definition and_then :: "py_error + 'a \<Rightarrow> ('a \<Rightarrow> py_error + 'b) \<Rightarrow> py_error + 'b" where
  "and_then r f = (case r of Inl e \<Rightarrow> Inl e | Inr v \<Rightarrow> f v)"

text \<open>Python's \<^verbatim>\<open>a / b\<close>: true division, raising on a zero divisor.\<close>

definition truediv :: "number \<Rightarrow> number \<Rightarrow> py_error + number" where
  "truediv a b = (if b = 0 then Inl ZeroDivisionError else Inr (a / b))"

subsection \<open>String operations\<close>

text \<open>
  \<^verbatim>\<open>s.split(c)\<close> for a one-character separator: a scan that collects the current
  piece and closes it at every separator, so there is always at least one piece.
\<close>

fun split_from :: "char \<Rightarrow> string \<Rightarrow> string \<Rightarrow> string list" where
  "split_from c piece [] = [rev piece]"
| "split_from c piece (x # xs) =
     (if x = c then rev piece # split_from c [] xs else split_from c (x # piece) xs)"

definition split_on :: "char \<Rightarrow> string \<Rightarrow> string list" where
  "split_on c s = split_from c [] s"

text \<open>\<^verbatim>\<open>sep.join(xs)\<close>.\<close>

fun join :: "string \<Rightarrow> string list \<Rightarrow> string" where
  "join sep [] = []"
| "join sep [x] = x"
| "join sep (x # y # ys) = x @ sep @ join sep (y # ys)"

text \<open>\<^verbatim>\<open>s.strip(c)\<close> for a one-character set, and \<^verbatim>\<open>s.ljust(n)\<close>.\<close>

definition strip_char :: "char \<Rightarrow> string \<Rightarrow> string" where
  "strip_char c s = rev (dropWhile (\<lambda>x. x = c) (rev (dropWhile (\<lambda>x. x = c) s)))"

definition ljust :: "nat \<Rightarrow> string \<Rightarrow> string" where
  "ljust n s = s @ replicate (n - length s) CHR '' ''"

text \<open>\<^verbatim>\<open>s.replace(c, t)\<close> for a one-character pattern.\<close>

definition replace_char :: "char \<Rightarrow> string \<Rightarrow> string \<Rightarrow> string" where
  "replace_char c t s = concat (map (\<lambda>x. if x = c then t else [x]) s)"

definition is_digit :: "char \<Rightarrow> bool" where
  "is_digit c = (c \<in> set ''0123456789'')"

text \<open>\<^verbatim>\<open>s.isdigit()\<close> on ASCII text: non-empty and digits only.\<close>

definition isdigit :: "string \<Rightarrow> bool" where
  "isdigit s = (s \<noteq> [] \<and> list_all is_digit s)"

text \<open>
  The whitespace \<^verbatim>\<open>int\<close> skips around an ASCII literal: tab, line feed, vertical tab,
  form feed, carriage return and space.
\<close>

definition is_space :: "char \<Rightarrow> bool" where
  "is_space c = (c \<in> set [CHR 0x09, CHR 0x0A, CHR 0x0B, CHR 0x0C, CHR 0x0D, CHR 0x20])"

definition strip_ws :: "string \<Rightarrow> string" where
  "strip_ws s = rev (dropWhile is_space (rev (dropWhile is_space s)))"

text \<open>The digit part of an integer literal: digits, with single underscores between them.\<close>

fun digits_ok :: "string \<Rightarrow> bool" where
  "digits_ok [] = False"
| "digits_ok [c] = is_digit c"
| "digits_ok (c # d # r) =
     (is_digit c \<and> (if d = CHR ''_'' then r \<noteq> [] \<and> digits_ok r else digits_ok (d # r)))"

definition digit_val :: "char \<Rightarrow> int" where
  "digit_val c = int (of_char c) - 48"

definition digits_val :: "string \<Rightarrow> int" where
  "digits_val s = foldl (\<lambda>acc c. 10 * acc + digit_val c) 0 (filter (\<lambda>c. c \<noteq> CHR ''_'') s)"

text \<open>
  The default of \<^verbatim>\<open>sys.int_max_str_digits\<close> (CPython 3.11 and later): a literal with
  more digits, underscores not counted, is refused.
\<close>

definition int_max_str_digits :: nat where
  "int_max_str_digits = 4300"

definition digits_text :: "string \<Rightarrow> int option" where
  "digits_text s =
     (if digits_ok s \<and> length (filter (\<lambda>c. c \<noteq> CHR ''_'') s) \<le> int_max_str_digits
      then Some (digits_val s) else None)"

text \<open>
  \<^verbatim>\<open>int(s)\<close> on ASCII text: surrounding whitespace is dropped, one sign is allowed,
  and anything else than a decimal literal within the digit limit raises
  \<^verbatim>\<open>ValueError\<close> (here \<open>None\<close>).
\<close>

definition py_int :: "string \<Rightarrow> int option" where
  "py_int s =
     (case strip_ws s of
        [] \<Rightarrow> None
      | c # r \<Rightarrow>
          if c = CHR ''-'' then map_option uminus (digits_text r)
          else if c = CHR ''+'' then digits_text r
          else digits_text (c # r))"

text \<open>
  \<^verbatim>\<open>str(n)\<close> of an integer, as an f-string renders it. The numbers printed are ids of
  the accounting database, unsigned 32-bit values in \<^verbatim>\<open>pyslurm\<close>.
\<close>

fun str_nat :: "nat \<Rightarrow> string" where
  "str_nat n =
     (if n < 10 then [''0123456789'' ! n]
      else str_nat (n div 10) @ [''0123456789'' ! (n mod 10)])"

declare str_nat.simps [simp del]

definition str_int :: "int \<Rightarrow> string" where
  "str_int i = (if i < 0 then CHR ''-'' # str_nat (nat (- i)) else str_nat (nat i))"

section \<open>The accounting database\<close>

text \<open>
  The records \<^verbatim>\<open>pyslurm.db\<close> returns, with the attributes the summary reads.
  \<open>memory\<close> is the requested memory in MiB, \<open>time_limit\<close> is in minutes;
  a dictionary is an association list in iteration order.
\<close>

record job_statistics =
  max_resident_memory :: int
  elapsed_cpu_time :: int
  user_cpu_time :: int

record job_step =
  step_stats :: job_statistics

record db_job =
  db_id :: int
  state :: string
  memory :: int
  num_nodes :: int
  elapsed_time :: "int option"
  time_limit :: int
  stats :: job_statistics
  steps :: "(string \<times> job_step) list"
  array_id :: "int option"
  array_task_id :: "int option"

text \<open>
  The two queries of the database client: \<^verbatim>\<open>pyslurm.db.Job.load(raw_id)\<close> and
  \<^verbatim>\<open>pyslurm.db.Jobs.load(JobFilter(ids=...))\<close>. Either may raise.
\<close>

record slurm_db =
  Job_load :: "int \<Rightarrow> py_error + db_job"
  Jobs_load :: "string list \<Rightarrow> py_error + (int \<times> db_job) list"

section \<open>The metrics gateway\<close>

text \<open>
  The optional \<^verbatim>\<open>influxquery\<close> object with its three queries. The nested result of
  the filesystem query maps filesystem, server role, field and the key \<^verbatim>\<open>"value"\<close>
  to a sequence of samples.
\<close>

type_synonym lustre_jobstats =
  "(string \<times> (string \<times> (string \<times> (string \<times> number list) list) list) list) list"

record influx_query =
  iq_get_max_mem :: "string \<Rightarrow> py_error + number option"
  iq_get_avg_cpu :: "string \<Rightarrow> py_error + number option"
  iq_get_lustre_jobstats :: "string \<Rightarrow> py_error + lustre_jobstats"

subsection \<open>\<^verbatim>\<open>memory.py\<close>\<close>

record flux_record =
  get_value :: number

record flux_table =
  records :: "flux_record list"

definition SEARCH_WINDOW :: string where
  "SEARCH_WINDOW = ''7d''"

definition job_query :: "string \<Rightarrow> string" where
  "job_query job_id =
     ''\<newline>    from(bucket: \"jobmon-stats\")'' @
     ''\<newline>    |> range(start: -'' @ SEARCH_WINDOW @ '')'' @
     ''\<newline>    |> filter(fn: (r) => r[\"_measurement\"] == \"job_max_memory\")'' @
     ''\<newline>    |> filter(fn: (r) => r[\"job_id\"] == \"'' @ job_id @ ''\")'' @
     ''\<newline>    |> last()'' @
     ''\<newline>    ''"

text \<open>
  \<^verbatim>\<open>get_max_mem(job_id)\<close>; the function \<^verbatim>\<open>query\<close> of the module \<^verbatim>\<open>influx\<close>
  is a parameter.
\<close>

definition get_max_mem ::
  "(string \<Rightarrow> py_error + flux_table list) \<Rightarrow> string \<Rightarrow> py_error + number option" where
  "get_max_mem query job_id =
     and_then (query (job_query job_id)) (\<lambda>job_results.
       if length job_results > 0 then
         (case records (hd job_results) of
            [] \<Rightarrow> Inl IndexError
          | r # _ \<Rightarrow> Inr (Some (get_value r * 1024 ^ 2)))
       else Inr None)"

text \<open>
  \<^verbatim>\<open>get_req_mem(sacct_data)\<close>: the requested memory per node from a parsed
  \<^verbatim>\<open>sacct\<close> row; \<^verbatim>\<open>bytesize\<close> of the module \<^verbatim>\<open>utils\<close> is a parameter, and
  a dictionary without the key raises.
\<close>

definition get_req_mem ::
  "(string \<Rightarrow> py_error + number) \<Rightarrow> (string \<times> string) list \<Rightarrow> py_error + number" where
  "get_req_mem bytesize sacct_data =
     (case map_of sacct_data ''req_mem'' of
        None \<Rightarrow> Inl (KeyError ''req_mem'')
      | Some m \<Rightarrow>
          and_then (bytesize m) (\<lambda>req_mem.
            case map_of sacct_data ''req_nodes'' of
              None \<Rightarrow> Inl (KeyError ''req_nodes'')
            | Some n \<Rightarrow>
                (case py_int n of
                   None \<Rightarrow> Inl ValueError
                 | Some k \<Rightarrow> truediv req_mem (of_int k))))"

section \<open>\<^verbatim>\<open>JobSummary\<close>\<close>

definition UNFINISHED_STATES :: "string list" where
  "UNFINISHED_STATES = [''PENDING'', ''RUNNING'', ''REQUEUED'', ''RESIZING'', ''SUSPENDED'']"

text \<open>The attributes \<^verbatim>\<open>__init__\<close> sets before it computes the summary.\<close>

record job_summary_base =
  job_id :: string
  raw_id :: int
  db_data :: db_job
  influxid :: string
  finished :: bool
  influxquery :: "influx_query option"

record lustre_fs_stats =
  total_read :: number
  total_write :: number
  total_iops :: number

text \<open>The dictionary \<^verbatim>\<open>summary_data\<close>, one field per key.\<close>

record summary_data =
  sd_state :: string
  sd_req_mem :: "number option"
  sd_max_mem :: "number option"
  sd_elapsed_time :: "number option"
  sd_time_limit :: "number option"
  sd_avg_cpu :: "number option"
  sd_lustre_stats :: "(string \<times> lustre_fs_stats) list option"
  sd_warnings :: "string list option"

record job_summary = job_summary_base +
  summary_data :: summary_data
  warnings :: "string list"
  heading_width :: nat

subsection \<open>The derived fields\<close>

definition get_req_mem_bytes :: "'a job_summary_base_scheme \<Rightarrow> py_error + number" where
  "get_req_mem_bytes self =
     (if num_nodes (db_data self) = 0 then Inr 0
      else and_then
             (truediv (of_int (memory (db_data self))) (of_int (num_nodes (db_data self))))
             (\<lambda>q. Inr (q * 1024 ^ 2)))"

definition get_max_mem_bytes :: "'a job_summary_base_scheme \<Rightarrow> py_error + number option" where
  "get_max_mem_bytes self =
     (if finished self then Inr (Some (of_int (max_resident_memory (stats (db_data self)))))
      else (case influxquery self of
              Some iq \<Rightarrow> iq_get_max_mem iq (influxid self)
            | None \<Rightarrow> Inr None))"

definition get_elapsed_time_seconds :: "'a job_summary_base_scheme \<Rightarrow> number" where
  "get_elapsed_time_seconds self =
     (case elapsed_time (db_data self) of Some t \<Rightarrow> of_int t | None \<Rightarrow> 0)"

definition get_time_limit_seconds :: "'a job_summary_base_scheme \<Rightarrow> number" where
  "get_time_limit_seconds self = of_int (time_limit (db_data self) * 60)"

definition get_user_cpu_percentage ::
  "'a job_summary_base_scheme \<Rightarrow> py_error + number option" where
  "get_user_cpu_percentage self =
     (if finished self then
        (if elapsed_cpu_time (stats (db_data self)) = 0 then Inr (Some 0)
         else
           (let user_cpu =
                  foldl (\<lambda>acc step. acc + user_cpu_time (step_stats step)) 0
                    (map snd (steps (db_data self)))
            in and_then
                 (truediv (of_int user_cpu) (of_int (elapsed_cpu_time (stats (db_data self)))))
                 (\<lambda>q. Inr (Some (q * 100)))))
      else (case influxquery self of
              Some iq \<Rightarrow> iq_get_avg_cpu iq (influxid self)
            | None \<Rightarrow> Inr None))"

subsection \<open>Filesystem statistics\<close>

text \<open>
  The local function \<^verbatim>\<open>get_last_value\<close>: a missing key at any level is caught
  (\<^verbatim>\<open>except KeyError\<close>) and gives 0; the index \<^verbatim>\<open>[-1]\<close> of an empty sequence
  raises \<^verbatim>\<open>IndexError\<close>, which is not caught.
\<close>

definition get_last_value ::
  "lustre_jobstats \<Rightarrow> string \<Rightarrow> string \<Rightarrow> string \<Rightarrow> py_error + number" where
  "get_last_value data fs server field =
     (case map_of data fs of
        None \<Rightarrow> Inr 0
      | Some servers \<Rightarrow>
          (case map_of servers server of
             None \<Rightarrow> Inr 0
           | Some flds \<Rightarrow>
               (case map_of flds field of
                  None \<Rightarrow> Inr 0
                | Some entry \<Rightarrow>
                    (case map_of entry ''value'' of
                       None \<Rightarrow> Inr 0
                     | Some samples \<Rightarrow>
                         if samples = [] then Inl IndexError else Inr (last samples)))))"

text \<open>The loop over \<^verbatim>\<open>list(data.keys())\<close>.\<close>

fun lustre_rows ::
  "lustre_jobstats \<Rightarrow> string list \<Rightarrow> py_error + (string \<times> lustre_fs_stats) list" where
  "lustre_rows data [] = Inr []"
| "lustre_rows data (fs # rest) =
     and_then (get_last_value data fs ''oss'' ''read_bytes'') (\<lambda>r.
     and_then (get_last_value data fs ''oss'' ''write_bytes'') (\<lambda>w.
     and_then (get_last_value data fs ''mds'' ''iops'') (\<lambda>i.
     and_then (lustre_rows data rest) (\<lambda>rows.
       Inr ((fs, \<lparr>total_read = r, total_write = w, total_iops = i\<rparr>) # rows)))))"

definition get_lustre_stats ::
  "'a job_summary_base_scheme \<Rightarrow> py_error + (string \<times> lustre_fs_stats) list option" where
  "get_lustre_stats self =
     (case influxquery self of
        None \<Rightarrow> Inr None
      | Some iq \<Rightarrow>
          and_then (iq_get_lustre_jobstats iq (influxid self)) (\<lambda>data.
          and_then (lustre_rows data (map fst data)) (\<lambda>lustre_stats.
            Inr (Some lustre_stats))))"

text \<open>
  The reading of one field that the statements below compare with: the nested lookup
  \<^verbatim>\<open>data[fs][server][field]["value"]\<close>, \<open>None\<close> when a key is missing at any level, and
  its last sample, or 0 when there is no such sequence.
\<close>

definition samples_at ::
  "lustre_jobstats \<Rightarrow> string \<Rightarrow> string \<Rightarrow> string \<Rightarrow> number list option" where
  "samples_at data fs server field =
     (case map_of data fs of
        None \<Rightarrow> None
      | Some servers \<Rightarrow>
          (case map_of servers server of
             None \<Rightarrow> None
           | Some flds \<Rightarrow>
               (case map_of flds field of
                  None \<Rightarrow> None
                | Some entry \<Rightarrow> map_of entry ''value'')))"

definition last_sample_or_zero ::
  "lustre_jobstats \<Rightarrow> string \<Rightarrow> string \<Rightarrow> string \<Rightarrow> number" where
  "last_sample_or_zero data fs server field =
     (case samples_at data fs server field of None \<Rightarrow> 0 | Some samples \<Rightarrow> last samples)"

subsection \<open>Warnings\<close>

text \<open>\<^verbatim>\<open>get_warnings\<close> reads only \<^verbatim>\<open>self.summary_data\<close>, which is its argument here.\<close>

definition get_warnings :: "summary_data \<Rightarrow> py_error + string list" where
  "get_warnings sd =
     and_then
       (case sd_max_mem sd of
          None \<Rightarrow> Inr None
        | Some max_mem \<Rightarrow>
            (case sd_req_mem sd of
               None \<Rightarrow> Inr None
             | Some req_mem \<Rightarrow> and_then (truediv max_mem req_mem) (\<lambda>q. Inr (Some q))))
       (\<lambda>mem_usage_fraction.
          Inr ((case mem_usage_fraction of
                  None \<Rightarrow> []
                | Some f \<Rightarrow> if f < 0.5 then [''Too much memory requested''] else [])
               @ (case sd_avg_cpu sd of
                    None \<Rightarrow> []
                  | Some avg_cpu \<Rightarrow> if avg_cpu < 75.0 then [''CPU usage is low''] else [])))"

subsection \<open>Identifier resolution\<close>

text \<open>
  The loop of \<^verbatim>\<open>get_raw_id\<close> over \<^verbatim>\<open>jobs.values()\<close>: it has no \<^verbatim>\<open>break\<close>,
  and \<^verbatim>\<open>int(task_id)\<close> is evaluated at every record.
\<close>

fun scan_tasks :: "string \<Rightarrow> db_job list \<Rightarrow> int option \<Rightarrow> py_error + int option" where
  "scan_tasks task_id [] raw = Inr raw"
| "scan_tasks task_id (job # jobs) raw =
     (case py_int task_id of
        None \<Rightarrow> Inl ValueError
      | Some t \<Rightarrow>
          scan_tasks task_id jobs
            (if array_task_id job = Some t then Some (db_id job) else raw))"

definition get_raw_id :: "slurm_db \<Rightarrow> string \<Rightarrow> py_error + int" where
  "get_raw_id db jid =
     and_then
       (if CHR ''_'' \<in> set jid then
          (case split_on CHR ''_'' jid of
             [arr_id, task_id] \<Rightarrow>
               and_then (Jobs_load db [arr_id]) (\<lambda>jobs.
                 scan_tasks task_id (map snd jobs) None)
           | _ \<Rightarrow> Inl ValueError)
        else if CHR ''+'' \<in> set jid then
          (case split_on CHR ''+'' jid of
             [het_job_id, het_job_offset] \<Rightarrow>
               (case py_int het_job_id of
                  None \<Rightarrow> Inl ValueError
                | Some a \<Rightarrow>
                    (case py_int het_job_offset of
                       None \<Rightarrow> Inl ValueError
                     | Some b \<Rightarrow> Inr (Some (a + b))))
           | _ \<Rightarrow> Inl ValueError)
        else if isdigit jid then
          (case py_int jid of None \<Rightarrow> Inl ValueError | Some n \<Rightarrow> Inr (Some n))
        else Inr None)
       (\<lambda>raw.
          case raw of
            None \<Rightarrow> Inl (KeyError (''Job ID '' @ jid @ '' not found''))
          | Some r \<Rightarrow> Inr r)"

subsection \<open>The constructor\<close>

text \<open>
  \<^verbatim>\<open>__init__\<close>, in two parts: the attributes set before the summary is computed,
  then the summary itself. An optional integer is falsy when it is \<^verbatim>\<open>None\<close> or 0.
\<close>

definition init_base :: "slurm_db \<Rightarrow> string \<Rightarrow> influx_query option \<Rightarrow> py_error + job_summary_base" where
  "init_base db jid iq =
     and_then (get_raw_id db jid) (\<lambda>rid.
     and_then (Job_load db rid) (\<lambda>d.
       Inr \<lparr>job_id = jid, raw_id = rid, db_data = d,
            influxid =
              (case array_id d of
                 None \<Rightarrow> jid
               | Some a \<Rightarrow>
                   (case array_task_id d of
                      None \<Rightarrow> jid
                    | Some t \<Rightarrow>
                        if a \<noteq> 0 \<and> t \<noteq> 0 then str_int a @ ''_'' @ str_int t else jid)),
            finished = (state d \<notin> set UNFINISHED_STATES),
            influxquery = iq\<rparr>))"

definition JobSummary :: "slurm_db \<Rightarrow> string \<Rightarrow> influx_query option \<Rightarrow> py_error + job_summary" where
  "JobSummary db jid iq =
     and_then (init_base db jid iq) (\<lambda>self.
     and_then (get_req_mem_bytes self) (\<lambda>req_mem.
     and_then (get_max_mem_bytes self) (\<lambda>max_mem.
     and_then (get_user_cpu_percentage self) (\<lambda>avg_cpu.
     and_then (get_lustre_stats self) (\<lambda>lustre.
       (let sd = \<lparr>sd_state = state (db_data self),
                   sd_req_mem = Some req_mem,
                   sd_max_mem = max_mem,
                   sd_elapsed_time = Some (get_elapsed_time_seconds self),
                   sd_time_limit = Some (get_time_limit_seconds self),
                   sd_avg_cpu = avg_cpu,
                   sd_lustre_stats = lustre,
                   sd_warnings = None\<rparr>
        in and_then (get_warnings sd) (\<lambda>ws.
             Inr \<lparr>job_id = job_id self, raw_id = raw_id self, db_data = db_data self,
                  influxid = influxid self, finished = finished self,
                  influxquery = influxquery self,
                  summary_data = sd\<lparr>sd_warnings := Some ws\<rparr>,
                  warnings = ws, heading_width = 14\<rparr>)))))))"

section \<open>The report\<close>

text \<open>
  The formatting helpers of the module \<^verbatim>\<open>utils\<close> and \<^verbatim>\<open>tabulate\<close> are parameters,
  taken as total functions; an optional argument left out is \<open>None\<close>.
\<close>

record utils =
  humansize :: "number \<Rightarrow> bool option \<Rightarrow> string"
  seconds_to_str :: "number \<Rightarrow> string"
  percentage_bar :: "number \<Rightarrow> string option \<Rightarrow> string"
  tabulate :: "string list list \<Rightarrow> string list \<Rightarrow> string"

definition nl :: char where
  "nl = CHR 0x0A"

definition fs_names :: "(string \<times> string) list" where
  "fs_names = [(''dagg'', ''/fred''), (''home'', ''/home''), (''apps'', ''/apps''),
               (''images'', ''OS'')]"

text \<open>The loop of \<^verbatim>\<open>get_lustre_summary\<close> over the keys of the statistics.\<close>

fun lustre_table ::
  "utils \<Rightarrow> (string \<times> lustre_fs_stats) list \<Rightarrow> string list \<Rightarrow> py_error + string list list" where
  "lustre_table u data [] = Inr []"
| "lustre_table u data (fs # rest) =
     (case map_of fs_names fs of
        None \<Rightarrow> Inl (KeyError fs)
      | Some path \<Rightarrow>
          (case map_of data fs of
             None \<Rightarrow> Inl (KeyError fs)
           | Some st \<Rightarrow>
               and_then (lustre_table u data rest) (\<lambda>rows.
                 Inr ([path,
                       humansize u (total_read st) None,
                       humansize u (total_write st) None,
                       humansize u (total_iops st) (Some False)] # rows))))"

definition get_lustre_summary :: "utils \<Rightarrow> job_summary \<Rightarrow> py_error + string" where
  "get_lustre_summary u self =
     and_then
       (case sd_lustre_stats (summary_data self) of
          None \<Rightarrow> Inr ''  No data available''
        | Some data \<Rightarrow>
            and_then (lustre_table u data (map fst data)) (\<lambda>rows.
              (let table = tabulate u rows [''Path'', ''Total Read'', ''Total Write'', ''Total IOPS''];
                   indent = ''  ''
               in Inr (indent @ replace_char nl (nl # indent) table))))
       (\<lambda>lustre_string. Inr (''Lustre Filesystem:'' @ [nl] @ lustre_string @ [nl]))"

definition get_mem_summary :: "utils \<Rightarrow> job_summary \<Rightarrow> py_error + string" where
  "get_mem_summary u self =
     and_then
       (case sd_max_mem (summary_data self) of
          None \<Rightarrow> Inr ''No data available''
        | Some max_mem \<Rightarrow>
            (case sd_req_mem (summary_data self) of
               None \<Rightarrow> Inr ''No data available''
             | Some req_mem \<Rightarrow>
                 and_then (truediv max_mem req_mem) (\<lambda>q.
                   Inr (percentage_bar u q None
                        @ '' ('' @ humansize u max_mem None @ '' peak / ''
                        @ humansize u req_mem None @ '')''))))
       (\<lambda>line. Inr (ljust (heading_width self) ''Memory (RAM)'' @ line))"

definition get_cpu_summary :: "utils \<Rightarrow> job_summary \<Rightarrow> string" where
  "get_cpu_summary u self =
     ljust (heading_width self) ''CPU'' @
     (case sd_avg_cpu (summary_data self) of
        None \<Rightarrow> ''No data available''
      | Some avg_cpu \<Rightarrow> percentage_bar u (avg_cpu / 100) None @ '' average'')"

definition get_time_summary :: "utils \<Rightarrow> job_summary \<Rightarrow> py_error + string" where
  "get_time_summary u self =
     and_then
       (case sd_elapsed_time (summary_data self) of
          None \<Rightarrow> Inr ''No data available''
        | Some elapsed \<Rightarrow>
            (case sd_time_limit (summary_data self) of
               None \<Rightarrow> Inr ''No data available''
             | Some limit \<Rightarrow>
                 and_then (truediv elapsed limit) (\<lambda>q.
                   Inr (percentage_bar u q (Some ''arrow'')
                        @ '' ('' @ seconds_to_str u elapsed @ '' / ''
                        @ seconds_to_str u limit @ '')''))))
       (\<lambda>line. Inr (ljust (heading_width self) ''Time'' @ line))"

definition get_warnings_summary :: "job_summary \<Rightarrow> string" where
  "get_warnings_summary self =
     (case sd_warnings (summary_data self) of
        None \<Rightarrow> []
      | Some ws \<Rightarrow>
          if length ws = 0 then []
          else join [nl] ([''Warnings:''] @ map (\<lambda>w. ''  - '' @ w) ws))
     @ [nl]"

text \<open>
  \<^verbatim>\<open>get_full_summary\<close>, in its three steps: the content lines, the title, and the frame
  around them; the report is the frame's lines joined by newlines.
\<close>

definition summary_lines :: "utils \<Rightarrow> job_summary \<Rightarrow> py_error + string list" where
  "summary_lines u self =
     and_then (get_mem_summary u self) (\<lambda>mem.
     and_then (get_time_summary u self) (\<lambda>time.
     and_then (get_lustre_summary u self) (\<lambda>lustre.
       (let summary_list = [mem, get_cpu_summary u self, time, [], lustre,
                            get_warnings_summary self];
            summary = join [nl] summary_list;
            summary = strip_char nl summary
        in Inr (split_on nl summary)))))"

definition title_of :: "job_summary \<Rightarrow> string" where
  "title_of self = ''Job Summary: '' @ job_id self @ '' ('' @ sd_state (summary_data self) @ '')''"

definition framed :: "string \<Rightarrow> string list \<Rightarrow> py_error + string list" where
  "framed title lines =
     (case map length lines of
        [] \<Rightarrow> Inl ValueError
      | l # ls \<Rightarrow>
          (let max_len = max (fold max ls l) (length title);
               ndash = max_len - length title;
               ldashes = replicate (ndash div 2) CHR ''-'';
               rdashes = replicate (ndash div 2) CHR ''-''
                         @ (if ndash mod 2 = 1 then ''-'' else []);
               title_line = ''+'' @ ldashes @ '' '' @ title @ '' '' @ rdashes @ ''+'';
               bottom_border = ''+'' @ replicate (max_len + 2) CHR ''-'' @ ''+''
           in Inr ([title_line]
                   @ map (\<lambda>line. ''| '' @ ljust max_len line @ '' |'') lines
                   @ [bottom_border])))"

definition get_full_summary :: "utils \<Rightarrow> job_summary \<Rightarrow> py_error + string" where
  "get_full_summary u self =
     and_then (summary_lines u self) (\<lambda>lines.
     and_then (framed (title_of self) lines) (\<lambda>rows.
       Inr (join [nl] rows)))"

section \<open>Example inputs\<close>

text \<open>
  A finished job on two nodes with 16 GiB requested, 3 GiB peak, 100 s of CPU time and one
  step with 80 s of user time; the same job while running; two tasks of the array 123; a
  gateway with canned answers, and one built on \<open>get_max_mem\<close> over a store without samples.
\<close>

definition example_stats :: job_statistics where
  "example_stats =
     \<lparr>max_resident_memory = 3221225472, elapsed_cpu_time = 100, user_cpu_time = 80\<rparr>"

definition example_job :: db_job where
  "example_job =
     \<lparr>db_id = 42, state = ''COMPLETED'', memory = 16384, num_nodes = 2,
      elapsed_time = Some 300, time_limit = 600, stats = example_stats,
      steps = [(''0'', \<lparr>step_stats = example_stats\<rparr>)],
      array_id = None, array_task_id = None\<rparr>"

definition example_task :: "int \<Rightarrow> int \<Rightarrow> db_job" where
  "example_task n i = example_job\<lparr>db_id := i, array_id := Some 123, array_task_id := Some n\<rparr>"

definition example_db :: slurm_db where
  "example_db =
     \<lparr>Job_load =
        (\<lambda>i. if i = 42 then Inr example_job
             else if i = 43 then Inr (example_job\<lparr>db_id := 43, state := ''RUNNING''\<rparr>)
             else if i = 1001 then Inr (example_task 3 1001)
             else if i = 1002 then Inr (example_task 4 1002)
             else Inl (ExternalError ''no such job'')),
      Jobs_load =
        (\<lambda>ids. if ids = [''123'']
               then Inr [(1001, example_task 3 1001), (1002, example_task 4 1002)]
               else Inr [])\<rparr>"

text \<open>The summary of task 4 of the array 123, built for the identifier \<open>jid\<close>.\<close>

definition example_task_summary :: "string \<Rightarrow> job_summary" where
  "example_task_summary jid =
     \<lparr>job_id = jid, raw_id = 1002, db_data = example_task 4 1002,
      influxid = ''123_4'', finished = True, influxquery = None,
      summary_data =
        \<lparr>sd_state = ''COMPLETED'', sd_req_mem = Some 8589934592,
         sd_max_mem = Some 3221225472, sd_elapsed_time = Some 300,
         sd_time_limit = Some 36000, sd_avg_cpu = Some 80, sd_lustre_stats = None,
         sd_warnings = Some [''Too much memory requested'']\<rparr>,
      warnings = [''Too much memory requested''], heading_width = 14\<rparr>"

definition example_gateway :: influx_query where
  "example_gateway =
     \<lparr>iq_get_max_mem = (\<lambda>i. Inr (Some 1048576)),
      iq_get_avg_cpu = (\<lambda>i. Inr (Some 50)),
      iq_get_lustre_jobstats = (\<lambda>i. Inr [])\<rparr>"

definition example_memory_gateway :: influx_query where
  "example_memory_gateway =
     \<lparr>iq_get_max_mem = get_max_mem (\<lambda>q. Inr []),
      iq_get_avg_cpu = (\<lambda>i. Inr None),
      iq_get_lustre_jobstats = (\<lambda>i. Inr [])\<rparr>"

definition example_summary :: job_summary where
  "example_summary =
     \<lparr>job_id = ''42'', raw_id = 42, db_data = example_job, influxid = ''42'',
      finished = True, influxquery = Some example_gateway,
      summary_data =
        \<lparr>sd_state = ''COMPLETED'', sd_req_mem = Some 8589934592,
         sd_max_mem = Some 3221225472, sd_elapsed_time = Some 300,
         sd_time_limit = Some 36000, sd_avg_cpu = Some 80,
         sd_lustre_stats = Some [],
         sd_warnings = Some [''Too much memory requested'']\<rparr>,
      warnings = [''Too much memory requested''], heading_width = 14\<rparr>"

definition example_running :: "influx_query option \<Rightarrow> summary_data \<Rightarrow> job_summary" where
  "example_running iq sd =
     \<lparr>job_id = ''43'', raw_id = 43,
      db_data = example_job\<lparr>db_id := 43, state := ''RUNNING''\<rparr>, influxid = ''43'',
      finished = False, influxquery = iq, summary_data = sd,
      warnings = (case sd_warnings sd of Some ws \<Rightarrow> ws | None \<Rightarrow> []),
      heading_width = 14\<rparr>"

text \<open>The job 43 in the state \<open>st\<close>, and its summary while that state is an unfinished one.\<close>

definition example_state_db :: "string \<Rightarrow> slurm_db" where
  "example_state_db st =
     \<lparr>Job_load = (\<lambda>i. Inr (example_job\<lparr>db_id := i, state := st\<rparr>)),
      Jobs_load = (\<lambda>ids. Inr [])\<rparr>"

definition example_in_state :: "string \<Rightarrow> job_summary" where
  "example_in_state st =
     \<lparr>job_id = ''43'', raw_id = 43,
      db_data = example_job\<lparr>db_id := 43, state := st\<rparr>, influxid = ''43'',
      finished = False, influxquery = Some example_gateway,
      summary_data =
        \<lparr>sd_state = st, sd_req_mem = Some 8589934592,
         sd_max_mem = Some 1048576, sd_elapsed_time = Some 300,
         sd_time_limit = Some 36000, sd_avg_cpu = Some 50, sd_lustre_stats = Some [],
         sd_warnings = Some [''Too much memory requested'', ''CPU usage is low'']\<rparr>,
      warnings = [''Too much memory requested'', ''CPU usage is low''],
      heading_width = 14\<rparr>"

definition example_data ::
  "number option \<Rightarrow> number option \<Rightarrow> number option \<Rightarrow> summary_data" where
  "example_data mx req cpu =
     \<lparr>sd_state = ''COMPLETED'', sd_req_mem = req, sd_max_mem = mx,
      sd_elapsed_time = Some 300, sd_time_limit = Some 36000, sd_avg_cpu = cpu,
      sd_lustre_stats = None, sd_warnings = None\<rparr>"

text \<open>A finished job whose two steps used 150 s and 100 s of user time in 100 s.\<close>

definition example_threaded :: job_summary_base where
  "example_threaded =
     \<lparr>job_id = ''7'', raw_id = 7,
      db_data = example_job
        \<lparr>steps := [(''batch'', \<lparr>step_stats = example_stats\<lparr>user_cpu_time := 150\<rparr>\<rparr>),
                   (''0'', \<lparr>step_stats = example_stats\<lparr>user_cpu_time := 100\<rparr>\<rparr>)]\<rparr>,
      influxid = ''7'', finished = True, influxquery = None\<rparr>"

definition example_utils :: utils where
  "example_utils =
     \<lparr>humansize = (\<lambda>n b. if b = Some False then ''1.0k'' else ''1.0 GiB''),
      seconds_to_str = (\<lambda>n. ''0-00:05:00''),
      percentage_bar = (\<lambda>r style. if style = Some ''arrow'' then ''[==>  ]'' else ''[###  ]''),
      tabulate = (\<lambda>rows headers. join [nl] (map (join ''  '') (headers # rows)))\<rparr>"

text \<open>
  A filesystem result: \<^verbatim>\<open>dagg\<close> has read samples and IOPS samples but no write field,
  \<^verbatim>\<open>home\<close> has no server at all.
\<close>

definition example_lustre :: lustre_jobstats where
  "example_lustre =
     [(''dagg'', [(''oss'', [(''read_bytes'', [(''value'', [1, 2, 3])])]),
                  (''mds'', [(''iops'', [(''value'', [7])])])]),
      (''home'', [])]"

text \<open>
  A filesystem result with an empty sequence: \<^verbatim>\<open>dagg\<close> has read samples 5 and 6 but
  no write sample yet, \<^verbatim>\<open>home\<close> has no server at all.
\<close>

definition example_empty_lustre :: lustre_jobstats where
  "example_empty_lustre =
     [(''dagg'', [(''oss'', [(''read_bytes'', [(''value'', [5, 6])]),
                            (''write_bytes'', [(''value'', [])])])]),
      (''home'', [])]"

definition example_empty_gateway :: influx_query where
  "example_empty_gateway =
     \<lparr>iq_get_max_mem = (\<lambda>i. Inr None),
      iq_get_avg_cpu = (\<lambda>i. Inr None),
      iq_get_lustre_jobstats = (\<lambda>i. Inr example_empty_lustre)\<rparr>"

definition example_lustre_gateway :: influx_query where
  "example_lustre_gateway =
     \<lparr>iq_get_max_mem = (\<lambda>i. Inr None),
      iq_get_avg_cpu = (\<lambda>i. Inr None),
      iq_get_lustre_jobstats = (\<lambda>i. Inr example_lustre)\<rparr>"

section \<open>Basic facts\<close>

lemma and_then_Inl [simp]: "and_then (Inl e) f = Inl e"
  by (simp add: and_then_def)

lemma and_then_Inr [simp]: "and_then (Inr v) f = f v"
  by (simp add: and_then_def)

lemma and_then_eq_Inr:
  "and_then r f = Inr y \<longleftrightarrow> (\<exists>v. r = Inr v \<and> f v = Inr y)"
  by (cases r) simp_all

lemma foldl_add_sum_list:
  "foldl (\<lambda>acc x. acc + f x) (a::int) xs = a + sum_list (map f xs)"
  by (induction xs arbitrary: a) simp_all

lemma replicate_numeral_unfold:
  "replicate (numeral k) x = x # replicate (pred_numeral k) x"
  by (simp add: numeral_eq_Suc)

lemma py_int_42: "py_int ''42'' = Some 42"
  by (simp add: py_int_def digits_text_def int_max_str_digits_def strip_ws_def is_space_def
      is_digit_def digits_val_def digit_val_def)

lemma py_int_43: "py_int ''43'' = Some 43"
  by (simp add: py_int_def digits_text_def int_max_str_digits_def strip_ws_def is_space_def
      is_digit_def digits_val_def digit_val_def)

lemma get_raw_id_42: "get_raw_id db ''42'' = Inr 42"
  by (simp add: get_raw_id_def isdigit_def is_digit_def py_int_42)

lemma get_raw_id_43: "get_raw_id db ''43'' = Inr 43"
  by (simp add: get_raw_id_def isdigit_def is_digit_def py_int_43)

subsection \<open>What a successful construction computed\<close>

lemma init_base_Inr:
  assumes "init_base db jid iq = Inr b"
  shows "\<exists>rid d. get_raw_id db jid = Inr rid \<and> Job_load db rid = Inr d \<and>
           b = \<lparr>job_id = jid, raw_id = rid, db_data = d,
                 influxid =
                   (case array_id d of
                      None \<Rightarrow> jid
                    | Some a \<Rightarrow>
                        (case array_task_id d of
                           None \<Rightarrow> jid
                         | Some t \<Rightarrow>
                             if a \<noteq> 0 \<and> t \<noteq> 0 then str_int a @ ''_'' @ str_int t else jid)),
                 finished = (state d \<notin> set UNFINISHED_STATES),
                 influxquery = iq\<rparr>"
  using assms unfolding init_base_def and_then_eq_Inr by blast

lemma JobSummary_Inr:
  assumes "JobSummary db jid iq = Inr js"
  shows "\<exists>b req ws. init_base db jid iq = Inr b
           \<and> get_req_mem_bytes b = Inr req
           \<and> get_max_mem_bytes b = Inr (sd_max_mem (summary_data js))
           \<and> get_user_cpu_percentage b = Inr (sd_avg_cpu (summary_data js))
           \<and> get_lustre_stats b = Inr (sd_lustre_stats (summary_data js))
           \<and> get_warnings ((summary_data js)\<lparr>sd_warnings := None\<rparr>) = Inr ws
           \<and> sd_req_mem (summary_data js) = Some req
           \<and> sd_state (summary_data js) = state (db_data b)
           \<and> sd_elapsed_time (summary_data js) = Some (get_elapsed_time_seconds b)
           \<and> sd_time_limit (summary_data js) = Some (get_time_limit_seconds b)
           \<and> sd_warnings (summary_data js) = Some ws
           \<and> warnings js = ws \<and> heading_width js = 14
           \<and> job_id js = job_id b \<and> raw_id js = raw_id b \<and> db_data js = db_data b
           \<and> influxid js = influxid b \<and> finished js = finished b
           \<and> influxquery js = influxquery b"
proof -
  from assms obtain b req mx cpu lus ws where
    b: "init_base db jid iq = Inr b" and
    req: "get_req_mem_bytes b = Inr req" and
    mx: "get_max_mem_bytes b = Inr mx" and
    cpu: "get_user_cpu_percentage b = Inr cpu" and
    lus: "get_lustre_stats b = Inr lus" and
    ws: "get_warnings
           \<lparr>sd_state = state (db_data b), sd_req_mem = Some req, sd_max_mem = mx,
            sd_elapsed_time = Some (get_elapsed_time_seconds b),
            sd_time_limit = Some (get_time_limit_seconds b),
            sd_avg_cpu = cpu, sd_lustre_stats = lus, sd_warnings = None\<rparr> = Inr ws" and
    js: "js = \<lparr>job_id = job_id b, raw_id = raw_id b, db_data = db_data b,
               influxid = influxid b, finished = finished b, influxquery = influxquery b,
               summary_data =
                 \<lparr>sd_state = state (db_data b), sd_req_mem = Some req, sd_max_mem = mx,
                  sd_elapsed_time = Some (get_elapsed_time_seconds b),
                  sd_time_limit = Some (get_time_limit_seconds b),
                  sd_avg_cpu = cpu, sd_lustre_stats = lus, sd_warnings = Some ws\<rparr>,
               warnings = ws, heading_width = 14\<rparr>"
    unfolding JobSummary_def and_then_eq_Inr Let_def by auto
  show ?thesis
    by (rule exI [of _ b], rule exI [of _ req], rule exI [of _ ws])
       (simp add: b req mx cpu lus ws js)
qed

lemma JobSummary_sources:
  assumes "JobSummary db jid iq = Inr js"
  shows "get_max_mem_bytes js = Inr (sd_max_mem (summary_data js))"
    and "get_user_cpu_percentage js = Inr (sd_avg_cpu (summary_data js))"
    and "influxquery js = iq"
    and "finished js = (state (db_data js) \<notin> set UNFINISHED_STATES)"
proof -
  from JobSummary_Inr [OF assms] obtain b where
    b: "init_base db jid iq = Inr b" and
    mx: "get_max_mem_bytes b = Inr (sd_max_mem (summary_data js))" and
    cpu: "get_user_cpu_percentage b = Inr (sd_avg_cpu (summary_data js))" and
    eqs: "db_data js = db_data b" "influxid js = influxid b" "finished js = finished b"
         "influxquery js = influxquery b"
    by blast
  show "get_max_mem_bytes js = Inr (sd_max_mem (summary_data js))"
    using mx unfolding get_max_mem_bytes_def eqs .
  show "get_user_cpu_percentage js = Inr (sd_avg_cpu (summary_data js))"
    using cpu unfolding get_user_cpu_percentage_def eqs .
  from init_base_Inr [OF b] have
    "influxquery b = iq" and "finished b = (state (db_data b) \<notin> set UNFINISHED_STATES)"
    by auto
  then show "influxquery js = iq" and "finished js = (state (db_data js) \<notin> set UNFINISHED_STATES)"
    by (simp_all add: eqs)
qed

subsection \<open>The example jobs, evaluated\<close>

lemma JobSummary_example_finished:
  "JobSummary example_db ''42'' (Some example_gateway) = Inr example_summary"
  by (simp add: JobSummary_def init_base_def get_raw_id_42 example_db_def example_job_def
      example_stats_def UNFINISHED_STATES_def get_req_mem_bytes_def get_max_mem_bytes_def
      get_user_cpu_percentage_def get_lustre_stats_def get_warnings_def truediv_def
      get_elapsed_time_seconds_def get_time_limit_seconds_def example_gateway_def
      example_summary_def)

lemma JobSummary_example_running:
  "JobSummary example_db ''43'' (Some example_gateway) =
     Inr (example_running (Some example_gateway)
            \<lparr>sd_state = ''RUNNING'', sd_req_mem = Some 8589934592,
             sd_max_mem = Some 1048576, sd_elapsed_time = Some 300,
             sd_time_limit = Some 36000, sd_avg_cpu = Some 50, sd_lustre_stats = Some [],
             sd_warnings = Some [''Too much memory requested'', ''CPU usage is low'']\<rparr>)"
  by (simp add: JobSummary_def init_base_def get_raw_id_43 example_db_def example_job_def
      example_stats_def UNFINISHED_STATES_def get_req_mem_bytes_def get_max_mem_bytes_def
      get_user_cpu_percentage_def get_lustre_stats_def get_warnings_def truediv_def
      get_elapsed_time_seconds_def get_time_limit_seconds_def example_gateway_def
      example_running_def)

lemma JobSummary_example_no_sample:
  "JobSummary example_db ''43'' (Some example_memory_gateway) =
     Inr (example_running (Some example_memory_gateway)
            \<lparr>sd_state = ''RUNNING'', sd_req_mem = Some 8589934592,
             sd_max_mem = None, sd_elapsed_time = Some 300,
             sd_time_limit = Some 36000, sd_avg_cpu = None, sd_lustre_stats = Some [],
             sd_warnings = Some []\<rparr>)"
  by (simp add: JobSummary_def init_base_def get_raw_id_43 example_db_def example_job_def
      example_stats_def UNFINISHED_STATES_def get_req_mem_bytes_def get_max_mem_bytes_def
      get_user_cpu_percentage_def get_lustre_stats_def get_warnings_def truediv_def
      get_elapsed_time_seconds_def get_time_limit_seconds_def example_memory_gateway_def
      get_max_mem_def example_running_def)

lemma JobSummary_example_no_gateway:
  "JobSummary example_db ''43'' None =
     Inr (example_running None
            \<lparr>sd_state = ''RUNNING'', sd_req_mem = Some 8589934592,
             sd_max_mem = None, sd_elapsed_time = Some 300,
             sd_time_limit = Some 36000, sd_avg_cpu = None, sd_lustre_stats = None,
             sd_warnings = Some []\<rparr>)"
  by (simp add: JobSummary_def init_base_def get_raw_id_43 example_db_def example_job_def
      example_stats_def UNFINISHED_STATES_def get_req_mem_bytes_def get_max_mem_bytes_def
      get_user_cpu_percentage_def get_lustre_stats_def get_warnings_def truediv_def
      get_elapsed_time_seconds_def get_time_limit_seconds_def example_running_def)

lemma JobSummary_example_in_state:
  assumes "st \<in> {''PENDING'', ''RUNNING'', ''REQUEUED'', ''RESIZING'', ''SUSPENDED''}"
  shows "JobSummary (example_state_db st) ''43'' (Some example_gateway) = Inr (example_in_state st)"
proof -
  have u: "st \<in> set UNFINISHED_STATES"
    using assms by (simp add: UNFINISHED_STATES_def)
  show ?thesis
    using u
    by (simp add: JobSummary_def init_base_def get_raw_id_43 example_state_db_def
        example_job_def example_stats_def get_req_mem_bytes_def get_max_mem_bytes_def
        get_user_cpu_percentage_def get_lustre_stats_def get_warnings_def truediv_def
        get_elapsed_time_seconds_def get_time_limit_seconds_def example_gateway_def
        example_in_state_def)
qed

section \<open>Requested memory per node\<close>

text \<open>
  C2: the requested memory per node is the total requested memory (\<open>memory\<close> MiB, that is
  \<open>memory * 1024\<^sup>2\<close> bytes) divided by the node count when the node count is not zero,
  it is exactly 0 when the node count is zero, and the computation never raises.
\<close>

theorem get_req_mem_bytes_per_node:
  "get_req_mem_bytes self =
     Inr (if num_nodes (db_data self) = 0 then 0
          else (of_int (memory (db_data self)) * 1024 ^ 2) / of_int (num_nodes (db_data self)))"
  by (simp add: get_req_mem_bytes_def truediv_def)

text \<open>
  The helper \<open>get_req_mem\<close> of \<^verbatim>\<open>memory.py\<close>, which works on a parsed \<^verbatim>\<open>sacct\<close> row
  and is not called by the summary, divides without a test.
\<close>

lemma get_req_mem_zero_nodes:
  "get_req_mem (\<lambda>s. Inr 4294967296) [(''req_mem'', ''4G''), (''req_nodes'', ''0'')]
     = Inl ZeroDivisionError"
  by (simp add: get_req_mem_def truediv_def py_int_def digits_text_def int_max_str_digits_def
      strip_ws_def is_space_def is_digit_def digits_val_def digit_val_def)

section \<open>Average CPU of a finished job\<close>

lemma get_user_cpu_percentage_finished:
  assumes "finished self"
  shows "get_user_cpu_percentage self =
         Inr (Some (if elapsed_cpu_time (stats (db_data self)) = 0 then 0
                    else of_int (sum_list (map (\<lambda>s. user_cpu_time (step_stats (snd s)))
                                             (steps (db_data self))))
                         / of_int (elapsed_cpu_time (stats (db_data self))) * 100))"
  using assms
  by (simp add: get_user_cpu_percentage_def truediv_def foldl_add_sum_list comp_def foldl_map)

text \<open>
  C3: for a finished job the average CPU percentage is 0 when the aggregate elapsed CPU time
  is zero, and otherwise the sum of the steps' user CPU times divided by the aggregate
  elapsed CPU time, times 100; no error is raised and the value is not clamped.
\<close>

theorem finished_avg_cpu:
  assumes "finished self"
  shows "get_user_cpu_percentage self =
         Inr (Some (if elapsed_cpu_time (stats (db_data self)) = 0 then 0
                    else of_int (sum_list (map (\<lambda>s. user_cpu_time (step_stats (snd s)))
                                             (steps (db_data self))))
                         / of_int (elapsed_cpu_time (stats (db_data self))) * 100))"
  using assms by (rule get_user_cpu_percentage_finished)

text \<open>Two steps with 150 s and 100 s of user time in 100 s give 250 percent.\<close>

theorem finished_avg_cpu_witness:
  "finished example_threaded
   \<and> get_user_cpu_percentage example_threaded = Inr (Some 250)
   \<and> get_user_cpu_percentage
        (example_threaded\<lparr>db_data := example_job\<lparr>stats := example_stats\<lparr>elapsed_cpu_time := 0\<rparr>\<rparr>\<rparr>)
       = Inr (Some 0)"
proof -
  have f: "finished example_threaded"
    by (simp add: example_threaded_def)
  have g: "finished
      (example_threaded\<lparr>db_data := example_job\<lparr>stats := example_stats\<lparr>elapsed_cpu_time := 0\<rparr>\<rparr>\<rparr>)"
    by (simp add: example_threaded_def)
  show ?thesis
    using finished_avg_cpu [OF f] finished_avg_cpu [OF g]
    by (simp add: example_threaded_def example_job_def example_stats_def)
qed

section \<open>The source of peak memory and average CPU\<close>

text \<open>
  C1: in every constructed summary the job counts as finished exactly when its state is not
  one of PENDING, RUNNING, REQUEUED, RESIZING and SUSPENDED, and the peak-memory and
  average-CPU fields are what the two getters return. For a finished job both come from
  the accounting statistics, and the getters do not depend on the gateway; for an
  unfinished job both are the gateway's answers when a gateway is given and \<open>None\<close> when
  none is, and the getters do not depend on the accounting record.
\<close>

theorem source_decision_rule:
  assumes "JobSummary db jid iq = Inr js"
  shows "finished js =
           (state (db_data js) \<notin> {''PENDING'', ''RUNNING'', ''REQUEUED'', ''RESIZING'', ''SUSPENDED''})
       \<and> get_max_mem_bytes js = Inr (sd_max_mem (summary_data js))
       \<and> get_user_cpu_percentage js = Inr (sd_avg_cpu (summary_data js))
       \<and> (finished js \<longrightarrow>
            sd_max_mem (summary_data js)
              = Some (of_int (max_resident_memory (stats (db_data js))))
          \<and> sd_avg_cpu (summary_data js)
              = Some (if elapsed_cpu_time (stats (db_data js)) = 0 then 0
                      else of_int (sum_list (map (\<lambda>s. user_cpu_time (step_stats (snd s)))
                                               (steps (db_data js))))
                           / of_int (elapsed_cpu_time (stats (db_data js))) * 100)
          \<and> (\<forall>q. get_max_mem_bytes (js\<lparr>influxquery := q\<rparr>) = get_max_mem_bytes js
                 \<and> get_user_cpu_percentage (js\<lparr>influxquery := q\<rparr>)
                     = get_user_cpu_percentage js))
       \<and> (\<not> finished js \<longrightarrow>
            (case iq of
               None \<Rightarrow> sd_max_mem (summary_data js) = None
                        \<and> sd_avg_cpu (summary_data js) = None
             | Some g \<Rightarrow> iq_get_max_mem g (influxid js) = Inr (sd_max_mem (summary_data js))
                        \<and> iq_get_avg_cpu g (influxid js) = Inr (sd_avg_cpu (summary_data js)))
          \<and> (\<forall>d. get_max_mem_bytes (js\<lparr>db_data := d\<rparr>) = get_max_mem_bytes js
                 \<and> get_user_cpu_percentage (js\<lparr>db_data := d\<rparr>)
                     = get_user_cpu_percentage js))"
proof -
  note src = JobSummary_sources [OF assms]
  have c4: "finished js \<longrightarrow>
            sd_max_mem (summary_data js)
              = Some (of_int (max_resident_memory (stats (db_data js))))
          \<and> sd_avg_cpu (summary_data js)
              = Some (if elapsed_cpu_time (stats (db_data js)) = 0 then 0
                      else of_int (sum_list (map (\<lambda>s. user_cpu_time (step_stats (snd s)))
                                               (steps (db_data js))))
                           / of_int (elapsed_cpu_time (stats (db_data js))) * 100)
          \<and> (\<forall>q. get_max_mem_bytes (js\<lparr>influxquery := q\<rparr>) = get_max_mem_bytes js
                 \<and> get_user_cpu_percentage (js\<lparr>influxquery := q\<rparr>)
                     = get_user_cpu_percentage js)"
  proof
    assume f: "finished js"
    have "sd_max_mem (summary_data js)
            = Some (of_int (max_resident_memory (stats (db_data js))))"
      using src(1) f by (simp add: get_max_mem_bytes_def)
    moreover have "sd_avg_cpu (summary_data js)
              = Some (if elapsed_cpu_time (stats (db_data js)) = 0 then 0
                      else of_int (sum_list (map (\<lambda>s. user_cpu_time (step_stats (snd s)))
                                               (steps (db_data js))))
                           / of_int (elapsed_cpu_time (stats (db_data js))) * 100)"
      using src(2) get_user_cpu_percentage_finished [OF f] by simp
    moreover have "\<forall>q. get_max_mem_bytes (js\<lparr>influxquery := q\<rparr>) = get_max_mem_bytes js
                 \<and> get_user_cpu_percentage (js\<lparr>influxquery := q\<rparr>)
                     = get_user_cpu_percentage js"
      using f by (simp add: get_max_mem_bytes_def get_user_cpu_percentage_def)
    ultimately show "sd_max_mem (summary_data js)
              = Some (of_int (max_resident_memory (stats (db_data js))))
          \<and> sd_avg_cpu (summary_data js)
              = Some (if elapsed_cpu_time (stats (db_data js)) = 0 then 0
                      else of_int (sum_list (map (\<lambda>s. user_cpu_time (step_stats (snd s)))
                                               (steps (db_data js))))
                           / of_int (elapsed_cpu_time (stats (db_data js))) * 100)
          \<and> (\<forall>q. get_max_mem_bytes (js\<lparr>influxquery := q\<rparr>) = get_max_mem_bytes js
                 \<and> get_user_cpu_percentage (js\<lparr>influxquery := q\<rparr>)
                     = get_user_cpu_percentage js)"
      by blast
  qed
  have c5: "\<not> finished js \<longrightarrow>
            (case iq of
               None \<Rightarrow> sd_max_mem (summary_data js) = None
                        \<and> sd_avg_cpu (summary_data js) = None
             | Some g \<Rightarrow> iq_get_max_mem g (influxid js) = Inr (sd_max_mem (summary_data js))
                        \<and> iq_get_avg_cpu g (influxid js) = Inr (sd_avg_cpu (summary_data js)))
          \<and> (\<forall>d. get_max_mem_bytes (js\<lparr>db_data := d\<rparr>) = get_max_mem_bytes js
                 \<and> get_user_cpu_percentage (js\<lparr>db_data := d\<rparr>)
                     = get_user_cpu_percentage js)"
  proof
    assume nf: "\<not> finished js"
    have m: "(case iq of Some g \<Rightarrow> iq_get_max_mem g (influxid js) | None \<Rightarrow> Inr None)
               = Inr (sd_max_mem (summary_data js))"
      using src(1) nf src(3) by (simp add: get_max_mem_bytes_def)
    have c: "(case iq of Some g \<Rightarrow> iq_get_avg_cpu g (influxid js) | None \<Rightarrow> Inr None)
               = Inr (sd_avg_cpu (summary_data js))"
      using src(2) nf src(3) by (simp add: get_user_cpu_percentage_def)
    have "case iq of
               None \<Rightarrow> sd_max_mem (summary_data js) = None
                        \<and> sd_avg_cpu (summary_data js) = None
             | Some g \<Rightarrow> iq_get_max_mem g (influxid js) = Inr (sd_max_mem (summary_data js))
                        \<and> iq_get_avg_cpu g (influxid js) = Inr (sd_avg_cpu (summary_data js))"
      using m c by (cases iq) auto
    moreover have "\<forall>d. get_max_mem_bytes (js\<lparr>db_data := d\<rparr>) = get_max_mem_bytes js
                 \<and> get_user_cpu_percentage (js\<lparr>db_data := d\<rparr>)
                     = get_user_cpu_percentage js"
      using nf
      by (simp add: get_max_mem_bytes_def get_user_cpu_percentage_def split: option.splits)
    ultimately show "(case iq of
               None \<Rightarrow> sd_max_mem (summary_data js) = None
                        \<and> sd_avg_cpu (summary_data js) = None
             | Some g \<Rightarrow> iq_get_max_mem g (influxid js) = Inr (sd_max_mem (summary_data js))
                        \<and> iq_get_avg_cpu g (influxid js) = Inr (sd_avg_cpu (summary_data js)))
          \<and> (\<forall>d. get_max_mem_bytes (js\<lparr>db_data := d\<rparr>) = get_max_mem_bytes js
                 \<and> get_user_cpu_percentage (js\<lparr>db_data := d\<rparr>)
                     = get_user_cpu_percentage js)"
      by blast
  qed
  have c1: "finished js =
           (state (db_data js) \<notin> {''PENDING'', ''RUNNING'', ''REQUEUED'', ''RESIZING'', ''SUSPENDED''})"
    using src(4) by (simp add: UNFINISHED_STATES_def)
  from c1 src(1) src(2) c4 c5 show ?thesis by blast
qed

text \<open>
  The finished example job takes both values from the accounting statistics; the same job
  in each of the five unfinished states takes both from the gateway.
\<close>

theorem source_decision_rule_witness:
  "(\<exists>js. JobSummary example_db ''42'' (Some example_gateway) = Inr js
         \<and> finished js
         \<and> sd_max_mem (summary_data js) = Some 3221225472
         \<and> sd_avg_cpu (summary_data js) = Some 80)
   \<and> (\<exists>js. JobSummary example_db ''43'' (Some example_gateway) = Inr js
         \<and> \<not> finished js
         \<and> iq_get_max_mem example_gateway (influxid js) = Inr (sd_max_mem (summary_data js))
         \<and> iq_get_avg_cpu example_gateway (influxid js) = Inr (sd_avg_cpu (summary_data js)))
   \<and> list_all
        (\<lambda>st. JobSummary (example_state_db st) ''43'' (Some example_gateway)
                = Inr (example_in_state st)
              \<and> state (db_data (example_in_state st)) = st
              \<and> \<not> finished (example_in_state st)
              \<and> sd_max_mem (summary_data (example_in_state st)) = Some 1048576
              \<and> sd_avg_cpu (summary_data (example_in_state st)) = Some 50)
        [''PENDING'', ''RUNNING'', ''REQUEUED'', ''RESIZING'', ''SUSPENDED'']"
proof -
  have old: "(\<exists>js. JobSummary example_db ''42'' (Some example_gateway) = Inr js
         \<and> finished js
         \<and> sd_max_mem (summary_data js) = Some 3221225472
         \<and> sd_avg_cpu (summary_data js) = Some 80)
   \<and> (\<exists>js. JobSummary example_db ''43'' (Some example_gateway) = Inr js
         \<and> \<not> finished js
         \<and> iq_get_max_mem example_gateway (influxid js) = Inr (sd_max_mem (summary_data js))
         \<and> iq_get_avg_cpu example_gateway (influxid js) = Inr (sd_avg_cpu (summary_data js)))"
    using source_decision_rule [OF JobSummary_example_finished]
      source_decision_rule [OF JobSummary_example_running]
    by (simp add: JobSummary_example_finished JobSummary_example_running example_summary_def
        example_running_def example_job_def example_stats_def)
  have each: "JobSummary (example_state_db st) ''43'' (Some example_gateway)
                = Inr (example_in_state st)
              \<and> state (db_data (example_in_state st)) = st
              \<and> \<not> finished (example_in_state st)
              \<and> sd_max_mem (summary_data (example_in_state st)) = Some 1048576
              \<and> sd_avg_cpu (summary_data (example_in_state st)) = Some 50"
    if st: "st \<in> {''PENDING'', ''RUNNING'', ''REQUEUED'', ''RESIZING'', ''SUSPENDED''}" for st
  proof -
    note js = JobSummary_example_in_state [OF st]
    note rule = source_decision_rule [OF js]
    have s: "state (db_data (example_in_state st)) = st"
      by (simp add: example_in_state_def)
    from rule have "finished (example_in_state st) =
        (state (db_data (example_in_state st))
           \<notin> {''PENDING'', ''RUNNING'', ''REQUEUED'', ''RESIZING'', ''SUSPENDED''})"
      by (rule conjunct1)
    with st have nf: "\<not> finished (example_in_state st)"
      by (simp only: s) simp
    from rule nf have "iq_get_max_mem example_gateway (influxid (example_in_state st))
          = Inr (sd_max_mem (summary_data (example_in_state st)))
        \<and> iq_get_avg_cpu example_gateway (influxid (example_in_state st))
          = Inr (sd_avg_cpu (summary_data (example_in_state st)))"
      by simp
    then have "sd_max_mem (summary_data (example_in_state st)) = Some 1048576"
      and "sd_avg_cpu (summary_data (example_in_state st)) = Some 50"
      by (simp_all add: example_gateway_def)
    with js s nf show ?thesis
      by blast
  qed
  have "list_all
        (\<lambda>st. JobSummary (example_state_db st) ''43'' (Some example_gateway)
                = Inr (example_in_state st)
              \<and> state (db_data (example_in_state st)) = st
              \<and> \<not> finished (example_in_state st)
              \<and> sd_max_mem (summary_data (example_in_state st)) = Some 1048576
              \<and> sd_avg_cpu (summary_data (example_in_state st)) = Some 50)
        [''PENDING'', ''RUNNING'', ''REQUEUED'', ''RESIZING'', ''SUSPENDED'']"
    unfolding list_all_iff using each by auto
  with old show ?thesis
    by blast
qed

section \<open>Warnings\<close>

lemma get_warnings_eq:
  assumes "get_warnings sd = Inr ws"
  shows "ws = (if \<exists>m r. sd_max_mem sd = Some m \<and> sd_req_mem sd = Some r \<and> m / r < 1 / 2
               then [''Too much memory requested''] else [])
            @ (if \<exists>c. sd_avg_cpu sd = Some c \<and> c < 75 then [''CPU usage is low''] else [])"
  using assms
  by (simp add: get_warnings_def truediv_def split: option.splits if_splits)

text \<open>
  The warnings of a constructed summary are what \<open>get_warnings\<close> returns on its summary
  data, so the two statements below speak about every constructed summary.
\<close>

lemma get_warnings_ignores_warnings:
  "get_warnings (sd\<lparr>sd_warnings := w\<rparr>) = get_warnings sd"
  by (cases "sd_max_mem sd") (simp_all add: get_warnings_def)

lemma JobSummary_warnings:
  assumes "JobSummary db jid iq = Inr js"
  shows "get_warnings (summary_data js) = Inr (warnings js)"
    and "sd_warnings (summary_data js) = Some (warnings js)"
proof -
  from JobSummary_Inr [OF assms] obtain ws where
    "get_warnings ((summary_data js)\<lparr>sd_warnings := None\<rparr>) = Inr ws"
    "sd_warnings (summary_data js) = Some ws" "warnings js = ws"
    by blast
  then show "get_warnings (summary_data js) = Inr (warnings js)"
    and "sd_warnings (summary_data js) = Some (warnings js)"
    by (simp_all add: get_warnings_ignores_warnings)
qed

lemma get_warnings_example:
  "r \<noteq> 0 \<Longrightarrow>
   get_warnings (example_data (Some m) (Some r) (Some c)) =
     Inr ((if m / r < 1 / 2 then [''Too much memory requested''] else [])
          @ (if c < 75 then [''CPU usage is low''] else []))"
  by (simp add: get_warnings_def example_data_def truediv_def)

text \<open>
  C4: in every computed list of warnings, "Too much memory requested" is present exactly
  when peak and requested memory are both known and peak / requested is below one half.
\<close>

theorem memory_warning_iff:
  assumes "get_warnings sd = Inr ws"
  shows "''Too much memory requested'' \<in> set ws \<longleftrightarrow>
         (\<exists>m r. sd_max_mem sd = Some m \<and> sd_req_mem sd = Some r \<and> m / r < 1 / 2)"
  using get_warnings_eq [OF assms] by (auto split: if_splits)

text \<open>At the ratio 0.5 the warning is absent, at 0.4999 it is present.\<close>

theorem memory_warning_iff_witness:
  "get_warnings (example_data (Some 5000) (Some 10000) (Some 80)) = Inr []
   \<and> ''Too much memory requested'' \<notin> set []
   \<and> \<not> (\<exists>m r. sd_max_mem (example_data (Some 5000) (Some 10000) (Some 80)) = Some m
             \<and> sd_req_mem (example_data (Some 5000) (Some 10000) (Some 80)) = Some r
             \<and> m / r < 1 / 2)
   \<and> get_warnings (example_data (Some 4999) (Some 10000) (Some 80))
       = Inr [''Too much memory requested'']
   \<and> (\<exists>m r. sd_max_mem (example_data (Some 4999) (Some 10000) (Some 80)) = Some m
           \<and> sd_req_mem (example_data (Some 4999) (Some 10000) (Some 80)) = Some r
           \<and> m / r < 1 / 2)"
proof -
  have a: "get_warnings (example_data (Some 5000) (Some 10000) (Some 80)) = Inr []"
    by (simp add: get_warnings_example)
  have b: "get_warnings (example_data (Some 4999) (Some 10000) (Some 80))
             = Inr [''Too much memory requested'']"
    by (simp add: get_warnings_example)
  show ?thesis
    using memory_warning_iff [OF a] memory_warning_iff [OF b] a b by simp
qed

text \<open>
  C5: in every computed list of warnings, "CPU usage is low" is present exactly when the
  average CPU percentage is known and below 75; the list is the memory warning, if its
  condition holds, followed by the CPU warning, if its condition holds.
\<close>

theorem cpu_warning_iff:
  assumes "get_warnings sd = Inr ws"
  shows "(''CPU usage is low'' \<in> set ws \<longleftrightarrow> (\<exists>c. sd_avg_cpu sd = Some c \<and> c < 75))
       \<and> ws = (if \<exists>m r. sd_max_mem sd = Some m \<and> sd_req_mem sd = Some r \<and> m / r < 1 / 2
               then [''Too much memory requested''] else [])
            @ (if \<exists>c. sd_avg_cpu sd = Some c \<and> c < 75 then [''CPU usage is low''] else [])"
  using get_warnings_eq [OF assms] by (auto split: if_splits)

text \<open>At 75 the warning is absent, at 74.9 it is present, and both warnings can fire.\<close>

theorem cpu_warning_iff_witness:
  "get_warnings (example_data (Some 5000) (Some 10000) (Some 75)) = Inr []
   \<and> \<not> (\<exists>c. sd_avg_cpu (example_data (Some 5000) (Some 10000) (Some 75)) = Some c \<and> c < 75)
   \<and> get_warnings (example_data (Some 5000) (Some 10000) (Some 74.9))
       = Inr [''CPU usage is low'']
   \<and> (\<exists>c. sd_avg_cpu (example_data (Some 5000) (Some 10000) (Some 74.9)) = Some c \<and> c < 75)
   \<and> get_warnings (example_data (Some 4999) (Some 10000) (Some 74.9))
       = Inr [''Too much memory requested'', ''CPU usage is low'']"
proof -
  have a: "get_warnings (example_data (Some 5000) (Some 10000) (Some 75)) = Inr []"
    by (simp add: get_warnings_example)
  have b: "get_warnings (example_data (Some 5000) (Some 10000) (Some 74.9))
             = Inr [''CPU usage is low'']"
    by (simp add: get_warnings_example)
  have c: "get_warnings (example_data (Some 4999) (Some 10000) (Some 74.9))
             = Inr [''Too much memory requested'', ''CPU usage is low'']"
    by (simp add: get_warnings_example)
  show ?thesis
    using cpu_warning_iff [OF a] cpu_warning_iff [OF b] cpu_warning_iff [OF c] a b c
    by simp
qed

section \<open>Peak memory of an unfinished job\<close>

lemma job_query_window:
  "job_query j =
     ''\<newline>    from(bucket: \"jobmon-stats\")\<newline>    |> '' @ ''range(start: -7d)'' @
     ''\<newline>    |> filter(fn: (r) => r[\"_measurement\"] == \"job_max_memory\")'' @
     ''\<newline>    |> filter(fn: (r) => r[\"job_id\"] == \"'' @ j @ ''\")\<newline>    |> last()\<newline>    ''"
  by (simp add: job_query_def SEARCH_WINDOW_def)

lemma get_max_mem_no_sample:
  "query (job_query j) = Inr [] \<Longrightarrow> get_max_mem query j = Inr None"
  by (simp add: get_max_mem_def)

text \<open>
  C6: for an unfinished job the peak-memory field is \<open>None\<close> when no gateway is given, and
  \<open>None\<close> when the gateway answers with \<open>get_max_mem\<close> and its query, which ranges over
  the last 7 days, returns no sample.
\<close>

theorem unfinished_peak_memory_null:
  assumes "JobSummary db jid iq = Inr js" and "\<not> finished js"
  shows "(iq = None \<longrightarrow> sd_max_mem (summary_data js) = None)
       \<and> (\<forall>g query. iq = Some g \<and> iq_get_max_mem g = get_max_mem query
                     \<and> query (job_query (influxid js)) = Inr []
            \<longrightarrow> sd_max_mem (summary_data js) = None)
       \<and> (\<exists>p s. job_query (influxid js) = p @ ''range(start: -7d)'' @ s)"
proof -
  have m: "(case iq of Some g \<Rightarrow> iq_get_max_mem g (influxid js) | None \<Rightarrow> Inr None)
             = Inr (sd_max_mem (summary_data js))"
    using JobSummary_sources(1,3) [OF assms(1)] assms(2) by (simp add: get_max_mem_bytes_def)
  have a: "iq = None \<longrightarrow> sd_max_mem (summary_data js) = None"
    using m by auto
  have b: "\<forall>g query. iq = Some g \<and> iq_get_max_mem g = get_max_mem query
                     \<and> query (job_query (influxid js)) = Inr []
            \<longrightarrow> sd_max_mem (summary_data js) = None"
  proof (intro allI impI)
    fix g query
    assume h: "iq = Some g \<and> iq_get_max_mem g = get_max_mem query
                 \<and> query (job_query (influxid js)) = Inr []"
    then have "get_max_mem query (influxid js) = Inr None"
      by (simp add: get_max_mem_no_sample)
    with h m show "sd_max_mem (summary_data js) = None"
      by simp
  qed
  have c: "\<exists>p s. job_query (influxid js) = p @ ''range(start: -7d)'' @ s"
    using job_query_window [of "influxid js"] by blast
  from a b c show ?thesis by blast
qed

theorem unfinished_peak_memory_null_witness:
  "(\<exists>js. JobSummary example_db ''43'' None = Inr js \<and> \<not> finished js
         \<and> sd_max_mem (summary_data js) = None)
   \<and> (\<exists>js. JobSummary example_db ''43'' (Some example_memory_gateway) = Inr js
         \<and> \<not> finished js
         \<and> iq_get_max_mem example_memory_gateway = get_max_mem (\<lambda>q. Inr [])
         \<and> sd_max_mem (summary_data js) = None)"
proof -
  have f: "\<not> finished (example_running iq sd)" for iq sd
    by (simp add: example_running_def)
  have h: "iq_get_max_mem example_memory_gateway = get_max_mem (\<lambda>q. Inr [])"
    by (simp add: example_memory_gateway_def)
  show ?thesis
    using unfinished_peak_memory_null [OF JobSummary_example_no_gateway f]
      unfinished_peak_memory_null [OF JobSummary_example_no_sample f]
    by (simp add: JobSummary_example_no_gateway JobSummary_example_no_sample h
        example_running_def)
qed

section \<open>The guard before the memory quotient\<close>

lemma quotient_guard_warnings:
  "(\<exists>ws. get_warnings sd = Inr ws) \<longleftrightarrow> (sd_max_mem sd = None \<or> sd_req_mem sd \<noteq> Some 0)"
  by (simp add: get_warnings_def truediv_def split: option.splits)

lemma quotient_guard_mem_summary:
  "(\<exists>line. get_mem_summary u self = Inr line) \<longleftrightarrow>
   (sd_max_mem (summary_data self) = None \<or> sd_req_mem (summary_data self) \<noteq> Some 0)"
  by (simp add: get_mem_summary_def truediv_def split: option.splits)

lemma quotient_fault:
  assumes "sd_max_mem (summary_data self) \<noteq> None" and "sd_req_mem (summary_data self) = Some 0"
  shows "get_warnings (summary_data self) = Inl ZeroDivisionError"
    and "get_mem_summary u self = Inl ZeroDivisionError"
  using assms
  by (auto simp: get_warnings_def get_mem_summary_def truediv_def split: option.splits)

text \<open>
  C10: warning generation and the memory line return without an error exactly when the
  requested memory per node is not zero or the peak memory is \<open>None\<close>. The guard before
  the quotient tests only for \<open>None\<close>: with a known peak and a requested memory of 0 both
  raise \<^verbatim>\<open>ZeroDivisionError\<close>, and the requested memory of a job with node count 0 is 0,
  not \<open>None\<close>.
\<close>

theorem memory_quotient_guard:
  "((\<exists>ws. get_warnings (summary_data self) = Inr ws) \<longleftrightarrow>
      (sd_req_mem (summary_data self) \<noteq> Some 0 \<or> sd_max_mem (summary_data self) = None))
   \<and> ((\<exists>line. get_mem_summary u self = Inr line) \<longleftrightarrow>
      (sd_req_mem (summary_data self) \<noteq> Some 0 \<or> sd_max_mem (summary_data self) = None))
   \<and> (sd_max_mem (summary_data self) \<noteq> None \<and> sd_req_mem (summary_data self) = Some 0 \<longrightarrow>
        get_warnings (summary_data self) = Inl ZeroDivisionError
        \<and> get_mem_summary u self = Inl ZeroDivisionError)
   \<and> (num_nodes (db_data self) = 0 \<longrightarrow> get_req_mem_bytes self = Inr 0)"
  using quotient_guard_warnings [of "summary_data self"] quotient_guard_mem_summary [of u self]
    quotient_fault(1) [of self] quotient_fault(2) [of self u]
  by (auto simp: get_req_mem_bytes_def)

theorem memory_quotient_guard_witness:
  "sd_req_mem (summary_data example_summary) \<noteq> Some 0
   \<and> (\<exists>ws. get_warnings (summary_data example_summary) = Inr ws)
   \<and> (\<exists>line. get_mem_summary example_utils example_summary = Inr line)
   \<and> get_mem_summary example_utils example_summary
       = Inr ''Memory (RAM)  [###  ] (1.0 GiB peak / 1.0 GiB)''"
proof -
  have g: "sd_req_mem (summary_data example_summary) \<noteq> Some 0"
    by (simp add: example_summary_def)
  have m: "get_mem_summary example_utils example_summary
             = Inr ''Memory (RAM)  [###  ] (1.0 GiB peak / 1.0 GiB)''"
    by (simp add: get_mem_summary_def example_summary_def example_utils_def truediv_def
        ljust_def replicate_numeral_unfold)
  show ?thesis
    using memory_quotient_guard [of example_summary example_utils] g m by simp
qed

section \<open>Resolution of an array task\<close>

lemma split_from_no_sep: "c \<notin> set s \<Longrightarrow> split_from c piece s = [rev piece @ s]"
  by (induction s arbitrary: piece) auto

lemma split_from_append_sep:
  "c \<notin> set a \<Longrightarrow> split_from c piece (a @ c # t) = (rev piece @ a) # split_from c [] t"
  by (induction a arbitrary: piece) auto

lemma split_on_no_sep: "c \<notin> set s \<Longrightarrow> split_on c s = [s]"
  by (simp add: split_on_def split_from_no_sep)

lemma split_on_append_sep: "c \<notin> set a \<Longrightarrow> split_on c (a @ c # t) = a # split_on c t"
  by (simp add: split_on_def split_from_append_sep)

lemma scan_tasks_last_match:
  assumes "py_int t = Some n"
  shows "scan_tasks t js raw =
           Inr (case filter (\<lambda>j. array_task_id j = Some n) js of
                  [] \<Rightarrow> raw
                | m # ms \<Rightarrow> Some (db_id (last (m # ms))))"
  using assms
proof (induction js arbitrary: raw)
  case Nil
  then show ?case by simp
next
  case (Cons j js)
  then show ?case
    by (cases "filter (\<lambda>j. array_task_id j = Some n) js") simp_all
qed

lemma get_raw_id_array:
  assumes "CHR ''_'' \<notin> set a" and "CHR ''_'' \<notin> set t" and "py_int t = Some n"
    and "Jobs_load db [a] = Inr jobs"
  shows "get_raw_id db (a @ ''_'' @ t) =
           (case filter (\<lambda>j. array_task_id j = Some n) (map snd jobs) of
              [] \<Rightarrow> Inl (KeyError (''Job ID '' @ a @ ''_'' @ t @ '' not found''))
            | m # ms \<Rightarrow> Inr (db_id (last (m # ms))))"
proof -
  have s: "split_on CHR ''_'' (a @ CHR ''_'' # t) = [a, t]"
    using assms(1,2) by (simp add: split_on_append_sep split_on_no_sep)
  show ?thesis
  proof (cases "filter (\<lambda>j. array_task_id j = Some n) (map snd jobs)")
    case Nil
    then show ?thesis
      unfolding get_raw_id_def
      by (simp add: s assms(4) scan_tasks_last_match [OF assms(3)])
  next
    case (Cons m ms)
    then show ?thesis
      unfolding get_raw_id_def
      by (simp add: s assms(4) scan_tasks_last_match [OF assms(3)])
  qed
qed

lemma JobSummary_influxid:
  assumes "JobSummary db jid iq = Inr js"
  shows "influxid js =
           (case array_id (db_data js) of
              None \<Rightarrow> jid
            | Some a \<Rightarrow>
                (case array_task_id (db_data js) of
                   None \<Rightarrow> jid
                 | Some t \<Rightarrow> if a \<noteq> 0 \<and> t \<noteq> 0 then str_int a @ ''_'' @ str_int t else jid))"
    and "get_raw_id db jid = Inr (raw_id js)"
    and "Job_load db (raw_id js) = Inr (db_data js)"
    and "job_id js = jid"
proof -
  from JobSummary_Inr [OF assms] obtain b where
    b: "init_base db jid iq = Inr b" and
    eqs: "db_data js = db_data b" "influxid js = influxid b" "raw_id js = raw_id b"
      "job_id js = job_id b"
    by blast
  from init_base_Inr [OF b] obtain rid d where
    r: "get_raw_id db jid = Inr rid" "Job_load db rid = Inr d" and
    bb: "b = \<lparr>job_id = jid, raw_id = rid, db_data = d,
                 influxid =
                   (case array_id d of
                      None \<Rightarrow> jid
                    | Some a \<Rightarrow>
                        (case array_task_id d of
                           None \<Rightarrow> jid
                         | Some t \<Rightarrow>
                             if a \<noteq> 0 \<and> t \<noteq> 0 then str_int a @ ''_'' @ str_int t else jid)),
                 finished = (state d \<notin> set UNFINISHED_STATES),
                 influxquery = iq\<rparr>"
    by blast
  show "influxid js =
           (case array_id (db_data js) of
              None \<Rightarrow> jid
            | Some a \<Rightarrow>
                (case array_task_id (db_data js) of
                   None \<Rightarrow> jid
                 | Some t \<Rightarrow> if a \<noteq> 0 \<and> t \<noteq> 0 then str_int a @ ''_'' @ str_int t else jid))"
  proof -
    have d: "db_data b = d"
      by (simp add: bb)
    have "influxid b =
           (case array_id d of
              None \<Rightarrow> jid
            | Some a \<Rightarrow>
                (case array_task_id d of
                   None \<Rightarrow> jid
                 | Some t \<Rightarrow> if a \<noteq> 0 \<and> t \<noteq> 0 then str_int a @ ''_'' @ str_int t else jid))"
      by (simp add: bb)
    then show ?thesis
      unfolding eqs d .
  qed
  show "get_raw_id db jid = Inr (raw_id js)"
    using r(1) by (simp add: eqs bb)
  show "Job_load db (raw_id js) = Inr (db_data js)"
    using r(2) by (simp add: eqs bb)
  show "job_id js = jid"
    by (simp add: eqs bb)
qed

subsection \<open>Identifiers written as decimal numbers\<close>

text \<open>
  Within the digit limit \<^verbatim>\<open>int\<close> reads back what \<^verbatim>\<open>str\<close> prints, and a printed
  number has no underscore: an identifier made of two such decimal numbers meets the
  hypotheses of the resolution theorem below.
\<close>

lemma digit_char_props:
  assumes "n < 10"
  shows "is_digit (''0123456789'' ! n)" and "digit_val (''0123456789'' ! n) = int n"
proof -
  from assms consider "n = 0" | "n = 1" | "n = 2" | "n = 3" | "n = 4" | "n = 5" | "n = 6"
    | "n = 7" | "n = 8" | "n = 9"
    by atomize_elim arith
  then have "is_digit (''0123456789'' ! n) \<and> digit_val (''0123456789'' ! n) = int n"
    by cases (simp_all add: is_digit_def digit_val_def)
  then show "is_digit (''0123456789'' ! n)" and "digit_val (''0123456789'' ! n) = int n"
    by simp_all
qed

lemma str_nat_all_digits: "str_nat n \<noteq> [] \<and> list_all is_digit (str_nat n)"
proof (induction n rule: str_nat.induct)
  case (1 n)
  show ?case
  proof (cases "n < 10")
    case True
    then show ?thesis
      by (subst (1 2) str_nat.simps) (simp add: digit_char_props)
  next
    case False
    then have "n mod 10 < 10"
      by simp
    with 1 False show ?thesis
      by (subst (1 2) str_nat.simps) (simp add: digit_char_props)
  qed
qed

lemma digits_ok_all_digits: "s \<noteq> [] \<Longrightarrow> list_all is_digit s \<Longrightarrow> digits_ok s"
  by (induction s rule: digits_ok.induct) (auto simp: is_digit_def)

lemma digits_val_snoc:
  "d \<noteq> CHR ''_'' \<Longrightarrow> digits_val (s @ [d]) = 10 * digits_val s + digit_val d"
  by (simp add: digits_val_def)

lemma is_digit_not_special:
  "is_digit c \<Longrightarrow> c \<noteq> CHR ''_'' \<and> c \<noteq> CHR ''-'' \<and> c \<noteq> CHR ''+'' \<and> \<not> is_space c"
  by (auto simp: is_digit_def is_space_def)

lemma digits_val_str_nat: "digits_val (str_nat n) = int n"
proof (induction n rule: str_nat.induct)
  case (1 n)
  show ?case
  proof (cases "n < 10")
    case True
    then show ?thesis
      by (subst str_nat.simps) (simp add: digits_val_def digit_char_props is_digit_not_special)
  next
    case False
    then have m: "n mod 10 < 10"
      by simp
    have "digits_val (str_nat (n div 10) @ [''0123456789'' ! (n mod 10)])
            = 10 * int (n div 10) + int (n mod 10)"
      using 1 False digit_char_props [OF m] is_digit_not_special
      by (subst digits_val_snoc) auto
    then show ?thesis
      using False by (subst str_nat.simps) (simp add: zdiv_int zmod_int)
  qed
qed

lemma strip_ws_all_digits:
  assumes "list_all is_digit s"
  shows "strip_ws s = s"
proof -
  have h: "\<not> is_space x" if "x \<in> set s" for x
    using that assms is_digit_not_special by (auto simp: list_all_iff)
  have "dropWhile is_space s = s"
    by (rule dropWhile_id) (simp add: h)
  moreover have "dropWhile is_space (rev s) = rev s"
    by (rule dropWhile_id) (simp add: h)
  ultimately show ?thesis
    by (simp add: strip_ws_def)
qed

lemma py_int_str_nat:
  "py_int (str_nat n) =
     (if length (str_nat n) \<le> int_max_str_digits then Some (int n) else None)"
proof -
  note d = str_nat_all_digits [of n]
  obtain c r where cr: "str_nat n = c # r"
    using d by (cases "str_nat n") simp_all
  have "is_digit c"
    using d by (simp add: cr)
  then have sign: "c \<noteq> CHR ''-''" "c \<noteq> CHR ''+''"
    using is_digit_not_special by auto
  have "\<forall>x\<in>set (str_nat n). x \<noteq> CHR ''_''"
    using d is_digit_not_special by (auto simp: list_all_iff)
  then have "filter (\<lambda>c. c \<noteq> CHR ''_'') (str_nat n) = str_nat n"
    by (simp add: filter_id_conv)
  moreover have "digits_ok (str_nat n)"
    using d digits_ok_all_digits [of "str_nat n"] by simp
  ultimately have t: "digits_text (str_nat n) =
      (if length (str_nat n) \<le> int_max_str_digits then Some (int n) else None)"
    by (simp add: digits_text_def digits_val_str_nat)
  have "strip_ws (str_nat n) = c # r"
    using d strip_ws_all_digits [of "str_nat n"] by (simp add: cr)
  then have "py_int (str_nat n) = digits_text (c # r)"
    using sign by (simp add: py_int_def)
  with t show ?thesis
    by (simp add: cr)
qed

lemma str_nat_no_underscore: "CHR ''_'' \<notin> set (str_nat n)"
  using str_nat_all_digits [of n] is_digit_not_special by (auto simp: list_all_iff)


subsection \<open>Identifiers outside the array form\<close>

text \<open>
  A second underscore makes the unpacking of \<^verbatim>\<open>split\<close> raise, and a task id that is not a
  number makes \<^verbatim>\<open>int\<close> raise at the first record of the array: \<^verbatim>\<open>ValueError\<close> in
  both cases.
\<close>

lemma get_raw_id_two_underscores: "get_raw_id db ''1_2_3'' = Inl ValueError"
  by (simp add: get_raw_id_def split_on_def)

lemma get_raw_id_task_not_a_number: "get_raw_id example_db ''123_x'' = Inl ValueError"
  by (simp add: get_raw_id_def split_on_def example_db_def py_int_def digits_text_def
      strip_ws_def is_space_def is_digit_def)

subsection \<open>The array form\<close>

lemma str_int_of_nat: "str_int (int k) = str_nat k"
  by (simp add: str_int_def)

lemma JobSummary_array_record:
  assumes "CHR ''_'' \<notin> set a" and "CHR ''_'' \<notin> set t" and "py_int t = Some n"
    and "Jobs_load db [a] = Inr jobs"
    and "JobSummary db (a @ ''_'' @ t) iq = Inr js"
  shows "\<exists>j\<in>set (map snd jobs). array_task_id j = Some n \<and> raw_id js = db_id j"
proof -
  define recs where "recs = map snd jobs"
  have r: "get_raw_id db (a @ ''_'' @ t) = Inr (raw_id js)"
    using assms(5) by (rule JobSummary_influxid(2))
  have g: "get_raw_id db (a @ ''_'' @ t) =
           (case filter (\<lambda>j. array_task_id j = Some n) recs of
              [] \<Rightarrow> Inl (KeyError (''Job ID '' @ a @ ''_'' @ t @ '' not found''))
            | m # ms \<Rightarrow> Inr (db_id (last (m # ms))))"
    unfolding recs_def using assms(1-4) by (rule get_raw_id_array)
  have "\<exists>j\<in>set recs. array_task_id j = Some n \<and> raw_id js = db_id j"
  proof (cases "filter (\<lambda>j. array_task_id j = Some n) recs")
    case Nil
    with r g show ?thesis
      by simp
  next
    case (Cons m ms)
    have "last (m # ms) \<in> set (m # ms)"
      by (rule last_in_set) simp
    then have "last (m # ms) \<in> set (filter (\<lambda>j. array_task_id j = Some n) recs)"
      by (simp only: Cons)
    then have l: "last (m # ms) \<in> set recs" "array_task_id (last (m # ms)) = Some n"
      by simp_all
    have "raw_id js = db_id (last (m # ms))"
      using r g by (simp only: Cons list.case sum.inject)
    with l show ?thesis
      by blast
  qed
  then show ?thesis
    by (simp only: recs_def)
qed

lemma py_int_str_nat_Some: "py_int (str_nat k) = Some n \<Longrightarrow> n = int k"
  by (simp add: py_int_str_nat split: if_splits)

lemma JobSummary_array_canonical:
  assumes "CHR ''_'' \<notin> set (str_nat A)" and "CHR ''_'' \<notin> set (str_nat T)"
    and "py_int (str_nat T) = Some n"
    and "Jobs_load db [str_nat A] = Inr jobs"
    and "\<forall>j\<in>set (map snd jobs). array_id j = Some (int A) \<and> Job_load db (db_id j) = Inr j"
    and "JobSummary db (str_nat A @ ''_'' @ str_nat T) iq = Inr js"
  shows "influxid js = str_nat A @ ''_'' @ str_nat T"
    and "array_id (db_data js) = Some (int A)"
    and "array_task_id (db_data js) = Some (int T)"
proof -
  from JobSummary_array_record [OF assms(1-4) assms(6)] obtain j where
    j: "j \<in> set (map snd jobs)" "array_task_id j = Some n" "raw_id js = db_id j"
    by blast
  have n: "n = int T"
    using assms(3) by (rule py_int_str_nat_Some)
  from assms(5) j(1) have listed: "array_id j = Some (int A) \<and> Job_load db (db_id j) = Inr j"
    by (rule bspec)
  then have "Job_load db (raw_id js) = Inr j"
    by (simp only: j(3))
  moreover have "Job_load db (raw_id js) = Inr (db_data js)"
    using assms(6) by (rule JobSummary_influxid(3))
  ultimately have d: "db_data js = j"
    by simp
  show a: "array_id (db_data js) = Some (int A)"
    using listed by (simp only: d)
  show b: "array_task_id (db_data js) = Some (int T)"
    using j(2) by (simp only: d n)
  show "influxid js = str_nat A @ ''_'' @ str_nat T"
    using JobSummary_influxid(1) [OF assms(6)] a b by (simp add: str_int_of_nat)
qed

text \<open>
  C7: for an identifier \<open>A_T\<close> with one underscore and a task id \<open>T\<close> that \<^verbatim>\<open>int\<close>
  reads as \<open>n\<close>, \<open>get_raw_id\<close> loads the jobs of the array \<open>A\<close>, scans them in order and
  returns the id of the record whose \<open>array_task_id\<close> is \<open>n\<close> (of the last such record,
  the loop having no \<^verbatim>\<open>break\<close>); with no such record it raises the \<^verbatim>\<open>KeyError\<close>
  "Job ID A_T not found". The metrics id of the summary is the array and task number of
  the loaded record, printed in decimal around an underscore, when both are non-zero, and
  the identifier as typed otherwise. It is the string \<open>A_T\<close> when \<open>A\<close> and \<open>T\<close> are
  written as \<^verbatim>\<open>str\<close> prints numbers and the database loads, under the id of each job it
  lists for the array, that job as a job of array \<open>A\<close>.
\<close>

theorem array_task_resolution:
  assumes "CHR ''_'' \<notin> set a" and "CHR ''_'' \<notin> set t" and "py_int t = Some n"
    and "Jobs_load db [a] = Inr jobs"
  shows "get_raw_id db (a @ ''_'' @ t) =
           (case filter (\<lambda>j. array_task_id j = Some n) (map snd jobs) of
              [] \<Rightarrow> Inl (KeyError (''Job ID '' @ a @ ''_'' @ t @ '' not found''))
            | m # ms \<Rightarrow> Inr (db_id (last (m # ms))))
       \<and> (\<forall>iq js. JobSummary db (a @ ''_'' @ t) iq = Inr js \<longrightarrow>
             influxid js =
               (case array_id (db_data js) of
                  None \<Rightarrow> a @ ''_'' @ t
                | Some ai \<Rightarrow>
                    (case array_task_id (db_data js) of
                       None \<Rightarrow> a @ ''_'' @ t
                     | Some ti \<Rightarrow>
                         if ai \<noteq> 0 \<and> ti \<noteq> 0 then str_int ai @ ''_'' @ str_int ti
                         else a @ ''_'' @ t)))
       \<and> (\<forall>A T iq js.
             a = str_nat A \<and> t = str_nat T
             \<and> (\<forall>j\<in>set (map snd jobs).
                    array_id j = Some (int A) \<and> Job_load db (db_id j) = Inr j)
             \<and> JobSummary db (a @ ''_'' @ t) iq = Inr js
           \<longrightarrow> influxid js = a @ ''_'' @ t
               \<and> array_id (db_data js) = Some (int A)
               \<and> array_task_id (db_data js) = Some (int T))"
proof (intro conjI allI impI)
  show "get_raw_id db (a @ ''_'' @ t) =
           (case filter (\<lambda>j. array_task_id j = Some n) (map snd jobs) of
              [] \<Rightarrow> Inl (KeyError (''Job ID '' @ a @ ''_'' @ t @ '' not found''))
            | m # ms \<Rightarrow> Inr (db_id (last (m # ms))))"
    using assms by (rule get_raw_id_array)
next
  fix iq js
  assume "JobSummary db (a @ ''_'' @ t) iq = Inr js"
  then show "influxid js =
               (case array_id (db_data js) of
                  None \<Rightarrow> a @ ''_'' @ t
                | Some ai \<Rightarrow>
                    (case array_task_id (db_data js) of
                       None \<Rightarrow> a @ ''_'' @ t
                     | Some ti \<Rightarrow>
                         if ai \<noteq> 0 \<and> ti \<noteq> 0 then str_int ai @ ''_'' @ str_int ti
                         else a @ ''_'' @ t))"
    by (rule JobSummary_influxid(1))
next
  fix A T iq js
  assume h: "a = str_nat A \<and> t = str_nat T
             \<and> (\<forall>j\<in>set (map snd jobs).
                    array_id j = Some (int A) \<and> Job_load db (db_id j) = Inr j)
             \<and> JobSummary db (a @ ''_'' @ t) iq = Inr js"
  then have e: "a = str_nat A" "t = str_nat T"
    and listed: "\<forall>j\<in>set (map snd jobs).
                    array_id j = Some (int A) \<and> Job_load db (db_id j) = Inr j"
    and js: "JobSummary db (a @ ''_'' @ t) iq = Inr js"
    by blast+
  note c = JobSummary_array_canonical
    [OF assms(1) [unfolded e] assms(2) [unfolded e] assms(3) [unfolded e]
        assms(4) [unfolded e] listed js [unfolded e]]
  show "influxid js = a @ ''_'' @ t"
    unfolding e by (rule c(1))
  show "array_id (db_data js) = Some (int A)"
    by (rule c(2))
  show "array_task_id (db_data js) = Some (int T)"
    by (rule c(3))
qed

subsection \<open>The array 123 of the example database\<close>

lemma str_nat_digit: "n < 10 \<Longrightarrow> str_nat n = [''0123456789'' ! n]"
  by (subst str_nat.simps) simp

lemma str_nat_12: "str_nat 12 = ''12''"
  by (subst str_nat.simps) (simp add: str_nat_digit)

lemma str_nat_123: "str_nat 123 = ''123''"
  by (subst str_nat.simps) (simp add: str_nat_12)

lemma str_nat_4: "str_nat 4 = ''4''"
  by (simp add: str_nat_digit)

lemma str_int_123: "str_int 123 = ''123''"
  by (simp add: str_int_def str_nat_123)

lemma str_int_4: "str_int 4 = ''4''"
  by (simp add: str_int_def str_nat_4)

lemma Job_load_example: "Job_load example_db 1002 = Inr (example_task 4 1002)"
  by (simp add: example_db_def)

lemma py_int_4: "py_int ''4'' = Some 4"
  by (simp add: py_int_def digits_text_def int_max_str_digits_def strip_ws_def is_space_def
      is_digit_def digits_val_def digit_val_def)

lemma py_int_04: "py_int ''04'' = Some 4"
  by (simp add: py_int_def digits_text_def int_max_str_digits_def strip_ws_def is_space_def
      is_digit_def digits_val_def digit_val_def)

lemma py_int_7: "py_int ''7'' = Some 7"
  by (simp add: py_int_def digits_text_def int_max_str_digits_def strip_ws_def is_space_def
      is_digit_def digits_val_def digit_val_def)

lemma Jobs_load_example:
  "Jobs_load example_db [''123''] = Inr [(1001, example_task 3 1001), (1002, example_task 4 1002)]"
  by (simp add: example_db_def)

lemma Job_load_listed:
  "\<forall>j\<in>set (map snd [(1001, example_task 3 1001), (1002, example_task 4 1002)]).
     array_id j = Some (int 123) \<and> Job_load example_db (db_id j) = Inr j"
  by (simp add: example_db_def example_task_def)

lemma get_raw_id_example_task: "get_raw_id example_db ''123_4'' = Inr 1002"
  by (simp add: get_raw_id_def split_on_def py_int_4 Jobs_load_example example_task_def)

lemma get_raw_id_example_task_04: "get_raw_id example_db ''123_04'' = Inr 1002"
  by (simp add: get_raw_id_def split_on_def py_int_04 Jobs_load_example example_task_def)

lemma JobSummary_example_task:
  "JobSummary example_db ''123_4'' None = Inr (example_task_summary ''123_4'')"
  by (simp add: JobSummary_def init_base_def get_raw_id_example_task Job_load_example
      example_task_def example_job_def example_stats_def UNFINISHED_STATES_def
      get_req_mem_bytes_def get_max_mem_bytes_def get_user_cpu_percentage_def
      get_lustre_stats_def get_warnings_def truediv_def get_elapsed_time_seconds_def
      get_time_limit_seconds_def str_int_123 str_int_4 example_task_summary_def)

lemma JobSummary_example_task_04:
  "JobSummary example_db ''123_04'' None = Inr (example_task_summary ''123_04'')"
  by (simp add: JobSummary_def init_base_def get_raw_id_example_task_04 Job_load_example
      example_task_def example_job_def example_stats_def UNFINISHED_STATES_def
      get_req_mem_bytes_def get_max_mem_bytes_def get_user_cpu_percentage_def
      get_lustre_stats_def get_warnings_def truediv_def get_elapsed_time_seconds_def
      get_time_limit_seconds_def str_int_123 str_int_4 example_task_summary_def)

text \<open>
  Task 4 of the array 123 is found under the id 1002 and its metrics id is \<open>123_4\<close>;
  task 7 does not exist.
\<close>

theorem array_task_resolution_witness:
  "CHR ''_'' \<notin> set ''123'' \<and> CHR ''_'' \<notin> set ''4'' \<and> py_int ''4'' = Some 4
   \<and> Jobs_load example_db [''123'']
       = Inr [(1001, example_task 3 1001), (1002, example_task 4 1002)]
   \<and> ''123'' = str_nat 123 \<and> ''4'' = str_nat 4
   \<and> get_raw_id example_db ''123_4'' = Inr 1002
   \<and> get_raw_id example_db ''123_7'' = Inl (KeyError ''Job ID 123_7 not found'')
   \<and> JobSummary example_db ''123_4'' None = Inr (example_task_summary ''123_4'')
   \<and> raw_id (example_task_summary ''123_4'') = 1002
   \<and> array_id (db_data (example_task_summary ''123_4'')) = Some 123
   \<and> array_task_id (db_data (example_task_summary ''123_4'')) = Some 4
   \<and> influxid (example_task_summary ''123_4'') = ''123_4''"
proof -
  have u: "CHR ''_'' \<notin> set ''123''" "CHR ''_'' \<notin> set ''4''" "CHR ''_'' \<notin> set ''7''"
    by simp_all
  note found = array_task_resolution [OF u(1) u(2) py_int_4 Jobs_load_example]
  note missing = array_task_resolution [OF u(1) u(3) py_int_7 Jobs_load_example]
  have a: "get_raw_id example_db ''123_4'' = Inr 1002"
    using found by (simp add: example_task_def)
  have b: "get_raw_id example_db ''123_7'' = Inl (KeyError ''Job ID 123_7 not found'')"
    using missing by (simp add: example_task_def)
  have s: "''123'' = str_nat 123" "''4'' = str_nat 4"
    by (simp_all add: str_nat_123 str_nat_4)
  have js123: "JobSummary example_db (''123'' @ ''_'' @ ''4'') None
                 = Inr (example_task_summary ''123_4'')"
    using JobSummary_example_task by simp
  have "''123'' = str_nat 123 \<and> ''4'' = str_nat 4
        \<and> (\<forall>j\<in>set (map snd [(1001, example_task 3 1001), (1002, example_task 4 1002)]).
               array_id j = Some (int 123) \<and> Job_load example_db (db_id j) = Inr j)
        \<and> JobSummary example_db (''123'' @ ''_'' @ ''4'') None
            = Inr (example_task_summary ''123_4'')"
    by (intro conjI) (rule s(1) s(2) Job_load_listed js123)+
  with found have c:
    "influxid (example_task_summary ''123_4'') = ''123'' @ ''_'' @ ''4''
     \<and> array_id (db_data (example_task_summary ''123_4'')) = Some (int 123)
     \<and> array_task_id (db_data (example_task_summary ''123_4'')) = Some (int 4)"
    by blast
  have r: "raw_id (example_task_summary ''123_4'') = 1002"
    by (simp add: example_task_summary_def)
  from u(1,2) py_int_4 Jobs_load_example s a b JobSummary_example_task r c show ?thesis
    by simp
qed

text \<open>
  Written \<open>123_04\<close>, the same task is found, and its metrics id is \<open>123_4\<close>, not the
  identifier as typed.
\<close>

theorem array_task_metrics_id_counterexample:
  "CHR ''_'' \<notin> set ''123'' \<and> CHR ''_'' \<notin> set ''04'' \<and> py_int ''04'' = Some 4
   \<and> get_raw_id example_db ''123_04'' = Inr 1002
   \<and> JobSummary example_db ''123_04'' None = Inr (example_task_summary ''123_04'')
   \<and> array_task_id (db_data (example_task_summary ''123_04'')) = Some 4
   \<and> influxid (example_task_summary ''123_04'') = ''123_4''
   \<and> influxid (example_task_summary ''123_04'') \<noteq> ''123_04''"
  by (simp add: py_int_04 get_raw_id_example_task_04 JobSummary_example_task_04
      example_task_summary_def example_task_def)


section \<open>Filesystem statistics\<close>

lemma get_last_value_cases:
  "get_last_value data fs server field =
     (case samples_at data fs server field of
        None \<Rightarrow> Inr 0
      | Some samples \<Rightarrow> if samples = [] then Inl IndexError else Inr (last samples))"
  by (simp add: get_last_value_def samples_at_def split: option.splits)

lemma get_last_value_present:
  assumes "samples_at data fs server field \<noteq> Some []"
  shows "get_last_value data fs server field = Inr (last_sample_or_zero data fs server field)"
  using assms
  by (simp add: get_last_value_cases last_sample_or_zero_def split: option.splits)

lemma lustre_rows_eq:
  assumes "\<forall>fs\<in>set ks. samples_at data fs ''oss'' ''read_bytes'' \<noteq> Some []
                      \<and> samples_at data fs ''oss'' ''write_bytes'' \<noteq> Some []
                      \<and> samples_at data fs ''mds'' ''iops'' \<noteq> Some []"
  shows "lustre_rows data ks =
           Inr (map (\<lambda>fs. (fs, \<lparr>total_read = last_sample_or_zero data fs ''oss'' ''read_bytes'',
                                 total_write = last_sample_or_zero data fs ''oss'' ''write_bytes'',
                                 total_iops = last_sample_or_zero data fs ''mds'' ''iops''\<rparr>)) ks)"
  using assms
  by (induction ks) (simp_all add: get_last_value_present)

text \<open>
  A sequence that is present but empty is not a missing key: the index raises
  \<^verbatim>\<open>IndexError\<close>, which \<^verbatim>\<open>get_last_value\<close> does not catch.
\<close>

lemma lustre_rows_empty_sequence:
  assumes "fs \<in> set ks"
    and "samples_at data fs ''oss'' ''read_bytes'' = Some []
         \<or> samples_at data fs ''oss'' ''write_bytes'' = Some []
         \<or> samples_at data fs ''mds'' ''iops'' = Some []"
  shows "lustre_rows data ks = Inl IndexError"
  using assms
proof (induction ks)
  case Nil
  then show ?case by simp
next
  case (Cons k ks)
  show ?case
  proof (cases "samples_at data k ''oss'' ''read_bytes'' = Some []
         \<or> samples_at data k ''oss'' ''write_bytes'' = Some []
         \<or> samples_at data k ''mds'' ''iops'' = Some []")
    case True
    then show ?thesis
      by (auto simp: get_last_value_cases and_then_def split: option.splits sum.splits)
  next
    case False
    with Cons have "lustre_rows data ks = Inl IndexError"
      by auto
    with False show ?thesis
      by (simp add: get_last_value_present)
  qed
qed

text \<open>
  For a result of the filesystem query in which no consulted sequence is empty, the
  summary has one entry per filesystem of the result, in order, and each of read bytes,
  write bytes and IOPS is the last sample of the field's sequence, or 0 when a key is
  missing. For one field: a key missing at the level of the filesystem, the server role, the
  field or \<^verbatim>\<open>"value"\<close> gives 0 and no error, and a non-empty sequence gives its last
  sample.
\<close>

lemma lustre_stats_of_samples:
  assumes "influxquery self = Some iq"
    and "iq_get_lustre_jobstats iq (influxid self) = Inr data"
    and "\<forall>fs\<in>set (map fst data). samples_at data fs ''oss'' ''read_bytes'' \<noteq> Some []
                      \<and> samples_at data fs ''oss'' ''write_bytes'' \<noteq> Some []
                      \<and> samples_at data fs ''mds'' ''iops'' \<noteq> Some []"
  shows "get_lustre_stats self =
           Inr (Some (map (\<lambda>fs. (fs, \<lparr>total_read = last_sample_or_zero data fs ''oss'' ''read_bytes'',
                                       total_write = last_sample_or_zero data fs ''oss'' ''write_bytes'',
                                       total_iops = last_sample_or_zero data fs ''mds'' ''iops''\<rparr>))
                          (map fst data)))
       \<and> (\<forall>fs server field.
             map_of data fs = None
             \<or> (\<exists>s. map_of data fs = Some s \<and> map_of s server = None)
             \<or> (\<exists>s f. map_of data fs = Some s \<and> map_of s server = Some f \<and> map_of f field = None)
             \<or> (\<exists>s f e. map_of data fs = Some s \<and> map_of s server = Some f
                         \<and> map_of f field = Some e \<and> map_of e ''value'' = None)
           \<longrightarrow> get_last_value data fs server field = Inr 0
               \<and> last_sample_or_zero data fs server field = 0)
       \<and> (\<forall>fs server field s f e samples.
             map_of data fs = Some s \<and> map_of s server = Some f \<and> map_of f field = Some e
             \<and> map_of e ''value'' = Some samples \<and> samples \<noteq> []
           \<longrightarrow> get_last_value data fs server field = Inr (last samples)
               \<and> last_sample_or_zero data fs server field = last samples)"
proof (intro conjI)
  show "get_lustre_stats self =
           Inr (Some (map (\<lambda>fs. (fs, \<lparr>total_read = last_sample_or_zero data fs ''oss'' ''read_bytes'',
                                       total_write = last_sample_or_zero data fs ''oss'' ''write_bytes'',
                                       total_iops = last_sample_or_zero data fs ''mds'' ''iops''\<rparr>))
                          (map fst data)))"
    by (simp add: get_lustre_stats_def assms(1,2) lustre_rows_eq [OF assms(3)])
  show "\<forall>fs server field.
             map_of data fs = None
             \<or> (\<exists>s. map_of data fs = Some s \<and> map_of s server = None)
             \<or> (\<exists>s f. map_of data fs = Some s \<and> map_of s server = Some f \<and> map_of f field = None)
             \<or> (\<exists>s f e. map_of data fs = Some s \<and> map_of s server = Some f
                         \<and> map_of f field = Some e \<and> map_of e ''value'' = None)
           \<longrightarrow> get_last_value data fs server field = Inr 0
               \<and> last_sample_or_zero data fs server field = 0"
    by (auto simp: get_last_value_def last_sample_or_zero_def samples_at_def)
  show "\<forall>fs server field s f e samples.
             map_of data fs = Some s \<and> map_of s server = Some f \<and> map_of f field = Some e
             \<and> map_of e ''value'' = Some samples \<and> samples \<noteq> []
           \<longrightarrow> get_last_value data fs server field = Inr (last samples)
               \<and> last_sample_or_zero data fs server field = last samples"
    by (auto simp: get_last_value_def last_sample_or_zero_def samples_at_def)
qed

lemma get_lustre_stats_empty_sequence:
  assumes "influxquery self = Some iq"
    and "iq_get_lustre_jobstats iq (influxid self) = Inr data"
    and "fs \<in> set (map fst data)"
    and "samples_at data fs ''oss'' ''read_bytes'' = Some []
         \<or> samples_at data fs ''oss'' ''write_bytes'' = Some []
         \<or> samples_at data fs ''mds'' ''iops'' = Some []"
  shows "get_lustre_stats self = Inl IndexError"
  by (simp add: get_lustre_stats_def assms(1,2) lustre_rows_empty_sequence [OF assms(3,4)])

lemma example_lustre_samples:
  "samples_at example_lustre ''dagg'' ''oss'' ''read_bytes'' = Some [1, 2, 3]"
  "samples_at example_lustre ''dagg'' ''oss'' ''write_bytes'' = None"
  "samples_at example_lustre ''dagg'' ''mds'' ''iops'' = Some [7]"
  "samples_at example_lustre ''home'' server field = None"
  by (simp_all add: samples_at_def example_lustre_def)

lemma lustre_stats_example:
  "influxquery (example_threaded\<lparr>influxquery := Some example_lustre_gateway\<rparr>)
     = Some example_lustre_gateway
   \<and> iq_get_lustre_jobstats example_lustre_gateway
        (influxid (example_threaded\<lparr>influxquery := Some example_lustre_gateway\<rparr>))
       = Inr example_lustre
   \<and> get_lustre_stats (example_threaded\<lparr>influxquery := Some example_lustre_gateway\<rparr>)
       = Inr (Some [(''dagg'', \<lparr>total_read = 3, total_write = 0, total_iops = 7\<rparr>),
                    (''home'', \<lparr>total_read = 0, total_write = 0, total_iops = 0\<rparr>)])"
proof -
  have a: "influxquery (example_threaded\<lparr>influxquery := Some example_lustre_gateway\<rparr>)
             = Some example_lustre_gateway"
    by simp
  have b: "iq_get_lustre_jobstats example_lustre_gateway
             (influxid (example_threaded\<lparr>influxquery := Some example_lustre_gateway\<rparr>))
           = Inr example_lustre"
    by (simp add: example_lustre_gateway_def)
  have k: "map fst example_lustre = [''dagg'', ''home'']"
    by (simp add: example_lustre_def)
  have c: "\<forall>fs\<in>set (map fst example_lustre).
             samples_at example_lustre fs ''oss'' ''read_bytes'' \<noteq> Some []
             \<and> samples_at example_lustre fs ''oss'' ''write_bytes'' \<noteq> Some []
             \<and> samples_at example_lustre fs ''mds'' ''iops'' \<noteq> Some []"
    by (simp add: k example_lustre_samples)
  have "get_lustre_stats (example_threaded\<lparr>influxquery := Some example_lustre_gateway\<rparr>)
       = Inr (Some [(''dagg'', \<lparr>total_read = 3, total_write = 0, total_iops = 7\<rparr>),
                    (''home'', \<lparr>total_read = 0, total_write = 0, total_iops = 0\<rparr>)])"
    using lustre_stats_of_samples [OF a b c]
    by (simp add: k last_sample_or_zero_def example_lustre_samples)
  with a b show ?thesis
    by blast
qed


text \<open>
  C8: each field of the summary is meant to be the last sample of its sequence, and 0
  where data is not available (the docstring of \<^verbatim>\<open>get_last_value\<close>). This holds where
  every consulted sequence has a sample or misses a key (the statements above). At a
  result with an empty sequence it fails: for the write bytes of \<^verbatim>\<open>dagg\<close> the index
  \<^verbatim>\<open>[-1]\<close> raises \<^verbatim>\<open>IndexError\<close>, the handler catches \<^verbatim>\<open>KeyError\<close> only, and so the
  statistics and the constructor raise: no summary exists, neither with the last read
  sample 6 of \<^verbatim>\<open>dagg\<close> nor with the zeros of \<^verbatim>\<open>home\<close>.
\<close>

theorem lustre_empty_sequence_raises:
  "get_last_value example_empty_lustre ''dagg'' ''oss'' ''read_bytes'' = Inr 6
   \<and> get_last_value example_empty_lustre ''dagg'' ''oss'' ''write_bytes'' = Inl IndexError
   \<and> get_last_value example_empty_lustre ''home'' ''oss'' ''read_bytes'' = Inr 0
   \<and> get_lustre_stats (example_threaded\<lparr>influxquery := Some example_empty_gateway\<rparr>)
       = Inl IndexError
   \<and> JobSummary example_db ''42'' (Some example_empty_gateway) = Inl IndexError"
proof -
  have v: "get_last_value example_empty_lustre ''dagg'' ''oss'' ''read_bytes'' = Inr 6"
    "get_last_value example_empty_lustre ''dagg'' ''oss'' ''write_bytes'' = Inl IndexError"
    "get_last_value example_empty_lustre ''home'' ''oss'' ''read_bytes'' = Inr 0"
    by (simp_all add: get_last_value_def example_empty_lustre_def)
  have k: "map fst example_empty_lustre = [''dagg'', ''home'']"
    by (simp add: example_empty_lustre_def)
  have s: "get_lustre_stats (example_threaded\<lparr>influxquery := Some example_empty_gateway\<rparr>)
       = Inl IndexError"
    by (simp add: get_lustre_stats_def example_empty_gateway_def k v)
  have j: "JobSummary example_db ''42'' (Some example_empty_gateway) = Inl IndexError"
    by (simp add: JobSummary_def init_base_def get_raw_id_42 example_db_def example_job_def
        example_stats_def UNFINISHED_STATES_def get_req_mem_bytes_def get_max_mem_bytes_def
        get_user_cpu_percentage_def get_lustre_stats_def truediv_def
        example_empty_gateway_def k v)
  from v s j show ?thesis
    by simp
qed

section \<open>The frame of the report\<close>

lemma split_from_not_Nil: "split_from c piece s \<noteq> []"
  by (induction s arbitrary: piece) auto

lemma split_on_not_Nil [simp]: "split_on c s \<noteq> []"
  by (simp add: split_on_def split_from_not_Nil)

lemma split_from_no_sep_inside:
  "c \<notin> set piece \<Longrightarrow> \<forall>x\<in>set (split_from c piece s). c \<notin> set x"
proof (induction s arbitrary: piece)
  case Nil
  then show ?case by simp
next
  case (Cons a s)
  show ?case
  proof (cases "a = c")
    case True
    then show ?thesis
      using Cons.prems Cons.IH [of "[]"] by simp
  next
    case False
    then show ?thesis
      using Cons.prems Cons.IH [of "a # piece"] by simp
  qed
qed

lemma split_on_no_sep_inside: "x \<in> set (split_on c s) \<Longrightarrow> c \<notin> set x"
  using split_from_no_sep_inside [of c "[]" s] by (simp add: split_on_def)

lemma split_on_join:
  assumes "xs \<noteq> []" and "\<forall>x\<in>set xs. c \<notin> set x"
  shows "split_on c (join [c] xs) = xs"
  using assms
proof (induction "[c]" xs rule: join.induct)
  case 1
  then show ?case by simp
next
  case (2 x)
  then show ?case by (simp add: split_on_no_sep)
next
  case (3 x y ys)
  then show ?case by (simp add: split_on_append_sep)
qed

lemma framed_eq:
  assumes "lines \<noteq> []" and "w = max (Max (length ` set lines)) (length title)"
  shows "framed title lines =
           Inr ((''+'' @ replicate ((w - length title) div 2) CHR ''-''
                 @ '' '' @ title @ '' ''
                 @ replicate ((w - length title) div 2 + (w - length title) mod 2) CHR ''-''
                 @ ''+'')
                # map (\<lambda>l. ''| '' @ l @ replicate (w - length l) CHR '' '' @ '' |'') lines
                @ [''+'' @ replicate (w + 2) CHR ''-'' @ ''+''])"
proof -
  obtain l ls where ll: "lines = l # ls"
    using assms(1) by (cases lines) simp_all
  have m: "max (fold max (map length ls) (length l)) (length title) = w"
    using Max.set_eq_fold [of "length l" "map length ls"] assms(2) by (simp add: ll)
  have "framed title (l # ls) =
           Inr ([''+'' @ replicate ((w - length title) div 2) CHR ''-''
                 @ '' '' @ title @ '' ''
                 @ (replicate ((w - length title) div 2) CHR ''-''
                    @ (if (w - length title) mod 2 = 1 then ''-'' else []))
                 @ ''+'']
                @ map (\<lambda>line. ''| '' @ ljust w line @ '' |'') (l # ls)
                @ [''+'' @ replicate (w + 2) CHR ''-'' @ ''+''])"
    by (simp only: framed_def list.map list.case Let_def m)
  then show ?thesis
    by (simp add: ll ljust_def replicate_add replicate_append_same)
qed

lemma summary_lines_Inr:
  assumes "summary_lines u self = Inr lines"
  shows "lines \<noteq> []" and "\<forall>l\<in>set lines. nl \<notin> set l"
proof -
  from assms obtain s where "lines = split_on nl s"
    unfolding summary_lines_def and_then_eq_Inr Let_def by auto
  then show "lines \<noteq> []" and "\<forall>l\<in>set lines. nl \<notin> set l"
    by (auto dest: split_on_no_sep_inside)
qed

text \<open>
  C9: a rendered report is the frame's rows joined by newlines. Its width \<open>w\<close> is the
  maximum of the longest content line and the length of the title, which is
  \<open>Job Summary: \<close>, the job id, a space and the state in parentheses; the top border is a
  \<open>+\<close>, \<open>n div 2\<close> dashes, the title between two spaces, \<open>n div 2 + n mod 2\<close> dashes
  and a \<open>+\<close>, where \<open>n = w - length title\<close> (the odd dash goes to the right); every
  content line is padded to \<open>w\<close> between \<open>| \<close> and \<open> |\<close>; the bottom border is
  \<open>w + 2\<close> dashes between two \<open>+\<close>; and all rows have \<open>w + 4\<close> characters. When the
  title has no newline, splitting the report at newlines gives these rows back.
\<close>

theorem report_frame:
  assumes "get_full_summary u self = Inr report"
  shows "\<exists>lines. summary_lines u self = Inr lines \<and> lines \<noteq> [] \<and>
           (let title = ''Job Summary: '' @ job_id self @ '' ('' @ sd_state (summary_data self) @ '')'';
                w = max (Max (length ` set lines)) (length title);
                n = w - length title;
                top = ''+'' @ replicate (n div 2) CHR ''-'' @ '' '' @ title @ '' ''
                      @ replicate (n div 2 + n mod 2) CHR ''-'' @ ''+'';
                content = map (\<lambda>l. ''| '' @ l @ replicate (w - length l) CHR '' '' @ '' |'') lines;
                bottom = ''+'' @ replicate (w + 2) CHR ''-'' @ ''+''
            in report = join [nl] (top # content @ [bottom])
               \<and> length top = w + 4
               \<and> length bottom = w + 4
               \<and> (\<forall>c\<in>set content. length c = w + 4)
               \<and> (nl \<notin> set title \<longrightarrow> split_on nl report = top # content @ [bottom]))"
proof -
  from assms obtain lines rows where
    sl: "summary_lines u self = Inr lines" and
    fr: "framed (title_of self) lines = Inr rows" and
    rep: "report = join [nl] rows"
    unfolding get_full_summary_def and_then_eq_Inr by auto
  note ne = summary_lines_Inr(1) [OF sl] and clean = summary_lines_Inr(2) [OF sl]
  define title where
    "title = ''Job Summary: '' @ job_id self @ '' ('' @ sd_state (summary_data self) @ '')''"
  have fr': "framed title lines = Inr rows"
    using fr by (simp add: title_def title_of_def)
  define w where "w = max (Max (length ` set lines)) (length title)"
  define n where "n = w - length title"
  define top where "top = ''+'' @ replicate (n div 2) CHR ''-'' @ '' '' @ title @ '' ''
                      @ replicate (n div 2 + n mod 2) CHR ''-'' @ ''+''"
  define content where
    "content = map (\<lambda>l. ''| '' @ l @ replicate (w - length l) CHR '' '' @ '' |'') lines"
  define bottom where "bottom = ''+'' @ replicate (w + 2) CHR ''-'' @ ''+''"
  have rows: "rows = top # content @ [bottom]"
    using fr' framed_eq [OF ne w_def]
    by (simp add: top_def content_def bottom_def n_def)
  have wt: "length title \<le> w"
    by (simp add: w_def)
  have wl: "length l \<le> w" if "l \<in> set lines" for l
  proof -
    have "length l \<le> Max (length ` set lines)"
      using that by (intro Max_ge) simp_all
    then show ?thesis
      by (simp add: w_def)
  qed
  have lt: "length top = w + 4"
  proof -
    have "n div 2 + (n div 2 + n mod 2) = n"
      by presburger
    then have "length top = n + length title + 4"
      by (simp add: top_def)
    with wt show ?thesis
      by (simp add: n_def)
  qed
  have lb: "length bottom = w + 4"
    by (simp add: bottom_def)
  have lc: "\<forall>c\<in>set content. length c = w + 4"
    using wl by (auto simp: content_def)
  have sp: "split_on nl report = top # content @ [bottom]" if t: "nl \<notin> set title"
  proof -
    have "nl \<notin> set top"
      using t by (simp add: top_def nl_def)
    moreover have "nl \<notin> set bottom"
      by (simp add: bottom_def nl_def)
    moreover have "\<forall>c\<in>set content. nl \<notin> set c"
      using clean by (simp add: content_def nl_def)
    ultimately have "\<forall>x\<in>set rows. nl \<notin> set x"
      by (simp add: rows)
    then show ?thesis
      unfolding rep using split_on_join [of rows nl] by (simp add: rows)
  qed
  have "report = join [nl] (top # content @ [bottom])"
    by (simp add: rep rows)
  with lt lb lc sp sl ne have G:
    "summary_lines u self = Inr lines \<and> lines \<noteq> [] \<and>
       (report = join [nl] (top # content @ [bottom])
               \<and> length top = w + 4
               \<and> length bottom = w + 4
               \<and> (\<forall>c\<in>set content. length c = w + 4)
               \<and> (nl \<notin> set title \<longrightarrow> split_on nl report = top # content @ [bottom]))"
    by blast
  show ?thesis
    unfolding Let_def
    by (rule exI [of _ lines])
       (rule G [unfolded top_def content_def bottom_def n_def w_def title_def])
qed


subsection \<open>The example report\<close>

lemma get_mem_summary_example:
  "get_mem_summary example_utils (example_summary\<lparr>job_id := j\<rparr>)
     = Inr ''Memory (RAM)  [###  ] (1.0 GiB peak / 1.0 GiB)''"
  by (simp add: get_mem_summary_def example_summary_def example_utils_def truediv_def
      ljust_def replicate_numeral_unfold)

lemma get_cpu_summary_example:
  "get_cpu_summary example_utils (example_summary\<lparr>job_id := j\<rparr>)
     = ''CPU           [###  ] average''"
  by (simp add: get_cpu_summary_def example_summary_def example_utils_def
      ljust_def replicate_numeral_unfold)

lemma get_time_summary_example:
  "get_time_summary example_utils (example_summary\<lparr>job_id := j\<rparr>)
     = Inr ''Time          [==>  ] (0-00:05:00 / 0-00:05:00)''"
  by (simp add: get_time_summary_def example_summary_def example_utils_def truediv_def
      ljust_def replicate_numeral_unfold)

lemma get_lustre_summary_example:
  "get_lustre_summary example_utils (example_summary\<lparr>job_id := j\<rparr>)
     = Inr ''Lustre Filesystem:\<newline>  Path  Total Read  Total Write  Total IOPS\<newline>''"
  by (simp add: get_lustre_summary_def example_summary_def example_utils_def nl_def
      replace_char_def)

lemma get_warnings_summary_example:
  "get_warnings_summary (example_summary\<lparr>job_id := j\<rparr>)
     = ''Warnings:\<newline>  - Too much memory requested\<newline>''"
  by (simp add: get_warnings_summary_def example_summary_def nl_def)

lemma summary_lines_example:
  "summary_lines example_utils (example_summary\<lparr>job_id := j\<rparr>) =
     Inr [''Memory (RAM)  [###  ] (1.0 GiB peak / 1.0 GiB)'',
          ''CPU           [###  ] average'',
          ''Time          [==>  ] (0-00:05:00 / 0-00:05:00)'',
          [],
          ''Lustre Filesystem:'',
          ''  Path  Total Read  Total Write  Total IOPS'',
          [],
          ''Warnings:'',
          ''  - Too much memory requested'']"
  by (simp add: summary_lines_def get_mem_summary_example get_cpu_summary_example
      get_time_summary_example get_lustre_summary_example get_warnings_summary_example
      nl_def strip_char_def split_on_def)

lemma title_of_example:
  "title_of (example_summary\<lparr>job_id := ''7''\<rparr>) = ''Job Summary: 7 (COMPLETED)''"
  "title_of (example_summary\<lparr>job_id := ''1234567890123456789012345678''\<rparr>)
     = ''Job Summary: 1234567890123456789012345678 (COMPLETED)''"
  by (simp_all add: title_of_def example_summary_def)

lemma get_full_summary_example:
  "get_full_summary example_utils (example_summary\<lparr>job_id := ''7''\<rparr>) =
     Inr ''+---------- Job Summary: 7 (COMPLETED) -----------+\<newline>| Memory (RAM)  [###  ] (1.0 GiB peak / 1.0 GiB)  |\<newline>| CPU           [###  ] average                   |\<newline>| Time          [==>  ] (0-00:05:00 / 0-00:05:00) |\<newline>|                                                 |\<newline>| Lustre Filesystem:                              |\<newline>|   Path  Total Read  Total Write  Total IOPS     |\<newline>|                                                 |\<newline>| Warnings:                                       |\<newline>|   - Too much memory requested                   |\<newline>+-------------------------------------------------+''"
  by (simp add: get_full_summary_def summary_lines_example title_of_example framed_def
      ljust_def replicate_numeral_unfold nl_def Let_def)

lemma get_full_summary_example_long:
  "get_full_summary example_utils
     (example_summary\<lparr>job_id := ''1234567890123456789012345678''\<rparr>) =
     Inr ''+ Job Summary: 1234567890123456789012345678 (COMPLETED) +\<newline>| Memory (RAM)  [###  ] (1.0 GiB peak / 1.0 GiB)        |\<newline>| CPU           [###  ] average                         |\<newline>| Time          [==>  ] (0-00:05:00 / 0-00:05:00)       |\<newline>|                                                       |\<newline>| Lustre Filesystem:                                    |\<newline>|   Path  Total Read  Total Write  Total IOPS           |\<newline>|                                                       |\<newline>| Warnings:                                             |\<newline>|   - Too much memory requested                         |\<newline>+-------------------------------------------------------+''"
  by (simp add: get_full_summary_def summary_lines_example title_of_example framed_def
      ljust_def replicate_numeral_unfold nl_def Let_def)

text \<open>
  The report of the example job under the id 7: width 47, 21 dashes, 10 left and 11 right.
  Under an id of 28 digits the title has 53 characters and sets the width: no dash beside
  the title, 55 in the bottom border.
\<close>

theorem report_frame_witness:
  "get_full_summary example_utils (example_summary\<lparr>job_id := ''7''\<rparr>) =
     Inr ''+---------- Job Summary: 7 (COMPLETED) -----------+\<newline>| Memory (RAM)  [###  ] (1.0 GiB peak / 1.0 GiB)  |\<newline>| CPU           [###  ] average                   |\<newline>| Time          [==>  ] (0-00:05:00 / 0-00:05:00) |\<newline>|                                                 |\<newline>| Lustre Filesystem:                              |\<newline>|   Path  Total Read  Total Write  Total IOPS     |\<newline>|                                                 |\<newline>| Warnings:                                       |\<newline>|   - Too much memory requested                   |\<newline>+-------------------------------------------------+''
   \<and> (\<exists>lines. summary_lines example_utils (example_summary\<lparr>job_id := ''7''\<rparr>) = Inr lines
         \<and> max (Max (length ` set lines)) (length ''Job Summary: 7 (COMPLETED)'') = 47
         \<and> max (Max (length ` set lines)) (length ''Job Summary: 7 (COMPLETED)'')
             - length ''Job Summary: 7 (COMPLETED)'' = 21)
   \<and> length ''+---------- Job Summary: 7 (COMPLETED) -----------+'' = 47 + 4
   \<and> length ''+-------------------------------------------------+'' = 47 + 4
   \<and> get_full_summary example_utils
        (example_summary\<lparr>job_id := ''1234567890123456789012345678''\<rparr>) =
       Inr ''+ Job Summary: 1234567890123456789012345678 (COMPLETED) +\<newline>| Memory (RAM)  [###  ] (1.0 GiB peak / 1.0 GiB)        |\<newline>| CPU           [###  ] average                         |\<newline>| Time          [==>  ] (0-00:05:00 / 0-00:05:00)       |\<newline>|                                                       |\<newline>| Lustre Filesystem:                                    |\<newline>|   Path  Total Read  Total Write  Total IOPS           |\<newline>|                                                       |\<newline>| Warnings:                                             |\<newline>|   - Too much memory requested                         |\<newline>+-------------------------------------------------------+''
   \<and> (\<exists>lines. summary_lines example_utils
                 (example_summary\<lparr>job_id := ''1234567890123456789012345678''\<rparr>) = Inr lines
         \<and> max (Max (length ` set lines))
               (length ''Job Summary: 1234567890123456789012345678 (COMPLETED)'') = 53)
   \<and> length ''+ Job Summary: 1234567890123456789012345678 (COMPLETED) +'' = 53 + 4
   \<and> length ''+-------------------------------------------------------+'' = 53 + 4"
proof -
  from report_frame [OF get_full_summary_example] obtain short where
    short: "summary_lines example_utils (example_summary\<lparr>job_id := ''7''\<rparr>) = Inr short"
    by blast
  from report_frame [OF get_full_summary_example_long] obtain long where
    long: "summary_lines example_utils
             (example_summary\<lparr>job_id := ''1234567890123456789012345678''\<rparr>) = Inr long"
    by blast
  have a: "\<exists>lines. summary_lines example_utils (example_summary\<lparr>job_id := ''7''\<rparr>) = Inr lines
         \<and> max (Max (length ` set lines)) (length ''Job Summary: 7 (COMPLETED)'') = 47
         \<and> max (Max (length ` set lines)) (length ''Job Summary: 7 (COMPLETED)'')
             - length ''Job Summary: 7 (COMPLETED)'' = 21"
  proof -
    have "short = [''Memory (RAM)  [###  ] (1.0 GiB peak / 1.0 GiB)'',
          ''CPU           [###  ] average'',
          ''Time          [==>  ] (0-00:05:00 / 0-00:05:00)'',
          [],
          ''Lustre Filesystem:'',
          ''  Path  Total Read  Total Write  Total IOPS'',
          [],
          ''Warnings:'',
          ''  - Too much memory requested'']"
      using short by (simp add: summary_lines_example)
    then have "max (Max (length ` set short)) (length ''Job Summary: 7 (COMPLETED)'') = 47"
      by simp
    with short show ?thesis
      by auto
  qed
  have b: "\<exists>lines. summary_lines example_utils
                 (example_summary\<lparr>job_id := ''1234567890123456789012345678''\<rparr>) = Inr lines
         \<and> max (Max (length ` set lines))
               (length ''Job Summary: 1234567890123456789012345678 (COMPLETED)'') = 53"
  proof -
    have "long = [''Memory (RAM)  [###  ] (1.0 GiB peak / 1.0 GiB)'',
          ''CPU           [###  ] average'',
          ''Time          [==>  ] (0-00:05:00 / 0-00:05:00)'',
          [],
          ''Lustre Filesystem:'',
          ''  Path  Total Read  Total Write  Total IOPS'',
          [],
          ''Warnings:'',
          ''  - Too much memory requested'']"
      using long by (simp add: summary_lines_example)
    then have "max (Max (length ` set long))
               (length ''Job Summary: 1234567890123456789012345678 (COMPLETED)'') = 53"
      by simp
    with long show ?thesis
      by auto
  qed
  have c: "length ''+---------- Job Summary: 7 (COMPLETED) -----------+'' = 47 + 4"
    "length ''+-------------------------------------------------+'' = 47 + 4"
    "length ''+ Job Summary: 1234567890123456789012345678 (COMPLETED) +'' = 53 + 4"
    "length ''+-------------------------------------------------------+'' = 53 + 4"
    by simp_all
  from get_full_summary_example a c(1,2) get_full_summary_example_long b c(3,4)
  show ?thesis
    by (intro conjI)
qed


end
